theory Spec2Isabelle
  imports Main "HOL-Library.Word"
begin

unbundle bit_operations_syntax

section \<open>Constants of the headers\<close>

text \<open>
  Modelled from the spec: the error numbers of \<^verbatim>\<open>errno.h\<close> and \<^verbatim>\<open>rdma/fi_errno.h\<close>,
  which are not under src/. The values are those of Linux; \<^verbatim>\<open>FI_EAGAIN\<close>,
  \<^verbatim>\<open>FI_ENOMEM\<close>, \<^verbatim>\<open>FI_EINVAL\<close> and \<^verbatim>\<open>FI_ENOSYS\<close> are the system's
  \<^verbatim>\<open>EAGAIN\<close>, \<^verbatim>\<open>ENOMEM\<close>, \<^verbatim>\<open>EINVAL\<close> and \<^verbatim>\<open>ENOSYS\<close>.
\<close>

definition ENOENT :: int where "ENOENT = 2"
definition EIO :: int where "EIO = 5"
definition FI_EAGAIN :: int where "FI_EAGAIN = 11"
definition FI_ENOMEM :: int where "FI_ENOMEM = 12"
definition FI_EINVAL :: int where "FI_EINVAL = 22"
definition FI_ENOSYS :: int where "FI_ENOSYS = 38"
definition FI_EAVAIL :: int where "FI_EAVAIL = 259"

text \<open>
  Modelled from the spec: the completion flag bits of \<^verbatim>\<open>rdma/fabric.h\<close>
  (\<^verbatim>\<open>FI_MSG = 1ULL << 1\<close>, \<^verbatim>\<open>FI_RECV = 1ULL << 10\<close>, \<^verbatim>\<open>FI_SEND = 1ULL << 11\<close>),
  which is not under src/.
\<close>

definition FI_MSG :: "64 word" where "FI_MSG = push_bit 1 1"
definition FI_RECV :: "64 word" where "FI_RECV = push_bit 10 1"
definition FI_SEND :: "64 word" where "FI_SEND = push_bit 11 1"

text \<open>
  Modelled from the spec: the version macros of \<^verbatim>\<open>rdma/fabric.h\<close>, which is not
  under src/: \<^verbatim>\<open>FI_VERSION(major, minor) = (major << 16) | minor\<close>,
  \<^verbatim>\<open>FI_MAJOR(v) = v >> 16\<close>, \<^verbatim>\<open>FI_MINOR(v) = v & 0xFFFF\<close>, and
  \<^verbatim>\<open>FI_VERSION_GE\<close>, the lexicographic comparison of (major, minor).
\<close>

definition FI_VERSION :: "32 word \<Rightarrow> 32 word \<Rightarrow> 32 word" where
  "FI_VERSION major minor = push_bit 16 major OR minor"

definition FI_MAJOR :: "32 word \<Rightarrow> 32 word" where
  "FI_MAJOR version = drop_bit 16 version"

definition FI_MINOR :: "32 word \<Rightarrow> 32 word" where
  "FI_MINOR version = version AND 0xFFFF"

definition FI_VERSION_GE :: "32 word \<Rightarrow> 32 word \<Rightarrow> bool" where
  "FI_VERSION_GE v1 v2 =
     (FI_MAJOR v1 > FI_MAJOR v2 \<or>
      (FI_MAJOR v1 = FI_MAJOR v2 \<and> FI_MINOR v1 = FI_MINOR v2) \<or>
      (FI_MAJOR v1 = FI_MAJOR v2 \<and> FI_MINOR v1 > FI_MINOR v2))"

section \<open>Opcodes and completion flags\<close>

text \<open>
  \<^verbatim>\<open>enum ibv_wc_opcode\<close> of \<^verbatim>\<open>infiniband/verbs.h\<close>. The code distinguishes
  \<^verbatim>\<open>IBV_WC_SEND\<close> and \<^verbatim>\<open>IBV_WC_RECV\<close> from every other value.
\<close>

datatype ibv_wc_opcode =
    IBV_WC_SEND
  | IBV_WC_RDMA_WRITE
  | IBV_WC_RDMA_READ
  | IBV_WC_COMP_SWAP
  | IBV_WC_FETCH_ADD
  | IBV_WC_BIND_MW
  | IBV_WC_LOCAL_INV
  | IBV_WC_TSO
  | IBV_WC_RECV
  | IBV_WC_RECV_RDMA_WITH_IMM

text \<open>
  \<^verbatim>\<open>efa_cq_opcode_to_fi_flags\<close>. The \<^verbatim>\<open>default\<close> branch is \<^verbatim>\<open>assert(0)\<close>: the
  process is aborted there, which the model writes as \<open>None\<close>. Every function that
  reaches the branch inherits the \<open>None\<close>.
\<close>

fun efa_cq_opcode_to_fi_flags :: "ibv_wc_opcode \<Rightarrow> 64 word option" where
  "efa_cq_opcode_to_fi_flags IBV_WC_SEND = Some (FI_SEND OR FI_MSG)"
| "efa_cq_opcode_to_fi_flags IBV_WC_RECV = Some (FI_RECV OR FI_MSG)"
| "efa_cq_opcode_to_fi_flags _ = None"

section \<open>The hardware completion ring\<close>

text \<open>
  The fields of the completion under the poll cursor, as the wide-completion readers
  \<^verbatim>\<open>ibv_wc_read_vendor_err\<close>, \<^verbatim>\<open>ibv_wc_read_wc_flags\<close>, \<^verbatim>\<open>ibv_wc_read_qp_num\<close>,
  \<^verbatim>\<open>ibv_wc_read_opcode\<close>, \<^verbatim>\<open>ibv_wc_read_byte_len\<close>, \<^verbatim>\<open>ibv_wc_read_src_qp\<close>,
  \<^verbatim>\<open>ibv_wc_read_sl\<close>, \<^verbatim>\<open>ibv_wc_read_slid\<close> and \<^verbatim>\<open>ibv_wc_read_imm_data\<close> return
  them, with the status and the work-request identifier the poll stores in the ring
  handle. \<^verbatim>\<open>enum ibv_wc_status\<close> is an \<open>int\<close>; \<^verbatim>\<open>IBV_WC_SUCCESS\<close> is 0.
\<close>

record hw_cqe =
  cqe_status :: int
  cqe_wr_id :: "64 word"
  cqe_vendor_err :: "32 word"
  cqe_wc_flags :: "32 word"
  cqe_qp_num :: "32 word"
  cqe_opcode :: ibv_wc_opcode
  cqe_byte_len :: "32 word"
  cqe_src_qp :: "32 word"
  cqe_sl :: "8 word"
  cqe_slid :: "32 word"
  cqe_imm_data :: "32 word"

text \<open>
  What the device answers to the next \<^verbatim>\<open>ibv_start_poll\<close> or \<^verbatim>\<open>ibv_next_poll\<close>:
  a completion, or a fault code.
\<close>

datatype poll_item = Cqe hw_cqe | Fault int

text \<open>
  \<^verbatim>\<open>struct ibv_cq_ex\<close>: the fields the code reads (\<^verbatim>\<open>status\<close>, \<^verbatim>\<open>wr_id\<close>), the ring
  size \<^verbatim>\<open>cqe\<close>, the completion under the cursor, and the completions the device holds
  for the polls to come, oldest first.
\<close>

record ibv_cq_ex =
  cqe :: "32 word"
  status :: int
  wr_id :: "64 word"
  cur_cqe :: hw_cqe
  hw_ring :: "poll_item list"

text \<open>
  Modelled from the spec: the poll protocol of rdma-core (\<^verbatim>\<open>ibv_start_poll\<close>,
  \<^verbatim>\<open>ibv_next_poll\<close>, \<^verbatim>\<open>ibv_end_poll\<close>), a library that is not under src/. A poll
  moves the cursor to the next completion and returns 0, returns \<^verbatim>\<open>ENOENT\<close> when the
  ring holds none, or returns the fault code of the ring. The completion under the
  cursor has left the ring: no later poll returns it again.
\<close>

definition hw_poll :: "ibv_cq_ex \<Rightarrow> int \<times> ibv_cq_ex" where
  "hw_poll ex =
     (case hw_ring ex of
        [] \<Rightarrow> (ENOENT, ex)
      | Cqe c # rest \<Rightarrow>
          (0, ex\<lparr>status := cqe_status c, wr_id := cqe_wr_id c, cur_cqe := c, hw_ring := rest\<rparr>)
      | Fault e # rest \<Rightarrow> (e, ex\<lparr>hw_ring := rest\<rparr>))"

definition ibv_wc_read_opcode :: "ibv_cq_ex \<Rightarrow> ibv_wc_opcode" where
  "ibv_wc_read_opcode ex = cqe_opcode (cur_cqe ex)"

section \<open>Work completions and public entries\<close>

text \<open>\<^verbatim>\<open>struct ibv_wc\<close>; the fields carry the prefix \<open>wc_\<close>.\<close>

record ibv_wc =
  wc_wr_id :: "64 word"
  wc_status :: int
  wc_opcode :: ibv_wc_opcode
  wc_vendor_err :: "32 word"
  wc_byte_len :: "32 word"
  wc_imm_data :: "32 word"
  wc_qp_num :: "32 word"
  wc_src_qp :: "32 word"
  wc_flags :: "32 word"
  wc_pkey_index :: "16 word"
  wc_slid :: "16 word"
  wc_sl :: "8 word"
  wc_dlid_path_bits :: "8 word"

text \<open>\<^verbatim>\<open>struct efa_wc\<close> of \<^verbatim>\<open>efa.h\<close>.\<close>

record efa_wc =
  ibv_wc :: ibv_wc
  efa_ah :: "16 word"

text \<open>The initialiser \<^verbatim>\<open>struct efa_wc wc = {0}\<close> of \<^verbatim>\<open>efa_cq_readfrom\<close>.\<close>

definition efa_wc_zero :: efa_wc where
  "efa_wc_zero =
     \<lparr>ibv_wc = \<lparr>wc_wr_id = 0, wc_status = 0, wc_opcode = IBV_WC_SEND, wc_vendor_err = 0,
                wc_byte_len = 0, wc_imm_data = 0, wc_qp_num = 0, wc_src_qp = 0, wc_flags = 0,
                wc_pkey_index = 0, wc_slid = 0, wc_sl = 0, wc_dlid_path_bits = 0\<rparr>,
      efa_ah = 0\<rparr>"

text \<open>
  \<^verbatim>\<open>efa_cq_wc_from_ibv_cq_ex_unsafe\<close>. The reader of the link identifier returns 32 bits
  and the field \<^verbatim>\<open>slid\<close> of \<^verbatim>\<open>struct ibv_wc\<close> has 16: the assignment truncates.
\<close>

definition efa_cq_wc_from_ibv_cq_ex_unsafe :: "ibv_cq_ex \<Rightarrow> ibv_wc \<Rightarrow> ibv_wc" where
  "efa_cq_wc_from_ibv_cq_ex_unsafe cq wc =
     wc\<lparr>wc_status := status cq,
        wc_vendor_err := cqe_vendor_err (cur_cqe cq),
        wc_flags := cqe_wc_flags (cur_cqe cq),
        wc_qp_num := cqe_qp_num (cur_cqe cq),
        wc_opcode := ibv_wc_read_opcode cq,
        wc_byte_len := cqe_byte_len (cur_cqe cq),
        wc_src_qp := cqe_src_qp (cur_cqe cq),
        wc_sl := cqe_sl (cur_cqe cq),
        wc_slid := ucast (cqe_slid (cur_cqe cq)),
        wc_imm_data := cqe_imm_data (cur_cqe cq),
        wc_wr_id := wr_id cq\<rparr>"

definition efa_cq_wc_to_fi_flags :: "efa_wc \<Rightarrow> 64 word option" where
  "efa_cq_wc_to_fi_flags wc = efa_cq_opcode_to_fi_flags (wc_opcode (ibv_wc wc))"

text \<open>
  The public entries. \<^verbatim>\<open>struct fi_cq_entry\<close> (\<^verbatim>\<open>op_context\<close>) and
  \<^verbatim>\<open>struct fi_cq_msg_entry\<close> (\<^verbatim>\<open>op_context\<close>, \<^verbatim>\<open>flags\<close>, \<^verbatim>\<open>len\<close>) are prefixes of
  \<^verbatim>\<open>struct fi_cq_data_entry\<close>, and \<^verbatim>\<open>struct fi_cq_err_entry\<close> extends it. One slot of
  the caller's array is a \<open>fi_cq_data_entry\<close>, of which a layout owns a prefix; a
  formatter assigns the fields the source assigns and leaves the others as they were.
  Pointers and \<^verbatim>\<open>size_t\<close> are 64 bits wide.
\<close>

record fi_cq_data_entry =
  op_context :: "64 word"
  flags :: "64 word"
  len :: "64 word"
  buf :: "64 word"
  data :: "64 word"

record fi_cq_err_entry = fi_cq_data_entry +
  tag :: "64 word"
  olen :: "64 word"
  err :: int
  prov_errno :: int
  err_data :: "64 word"
  err_data_size :: "64 word"

text \<open>
  Modelled from the spec: the sizes of the entry structures of \<^verbatim>\<open>rdma/fi_eq.h\<close>, which
  is not under src/, on a platform with 64-bit pointers.
\<close>

definition sizeof_fi_cq_entry :: nat where "sizeof_fi_cq_entry = 8"
definition sizeof_fi_cq_msg_entry :: nat where "sizeof_fi_cq_msg_entry = 24"
definition sizeof_fi_cq_data_entry :: nat where "sizeof_fi_cq_data_entry = 40"
definition sizeof_fi_cq_err_entry :: int where "sizeof_fi_cq_err_entry = 80"

text \<open>
  The caller's output array \<^verbatim>\<open>buf\<close>, as the slots around the pointer: the formatters
  index it with an \<^verbatim>\<open>int\<close>. The three formatters; the message and data layouts derive
  the flags from the opcode and abort with it.
\<close>

type_synonym cq_buf = "int \<Rightarrow> fi_cq_data_entry"

definition efa_cq_read_context_entry :: "efa_wc \<Rightarrow> int \<Rightarrow> cq_buf \<Rightarrow> cq_buf option" where
  "efa_cq_read_context_entry wc i entry =
     Some (entry(i := (entry i)\<lparr>op_context := wc_wr_id (ibv_wc wc)\<rparr>))"

definition efa_cq_read_msg_entry :: "efa_wc \<Rightarrow> int \<Rightarrow> cq_buf \<Rightarrow> cq_buf option" where
  "efa_cq_read_msg_entry wc i entry =
     (case efa_cq_wc_to_fi_flags wc of
        None \<Rightarrow> None
      | Some f \<Rightarrow>
          Some (entry(i := (entry i)\<lparr>op_context := wc_wr_id (ibv_wc wc),
                                      flags := f,
                                      len := ucast (wc_byte_len (ibv_wc wc))\<rparr>)))"

definition efa_cq_read_data_entry :: "efa_wc \<Rightarrow> int \<Rightarrow> cq_buf \<Rightarrow> cq_buf option" where
  "efa_cq_read_data_entry wc i entry =
     (case efa_cq_wc_to_fi_flags wc of
        None \<Rightarrow> None
      | Some f \<Rightarrow>
          Some (entry(i := (entry i)\<lparr>op_context := wc_wr_id (ibv_wc wc),
                                      flags := f,
                                      data := 0,
                                      len := ucast (wc_byte_len (ibv_wc wc))\<rparr>)))"

section \<open>The completion queue\<close>

text \<open>
  Modelled from the spec: the reverse lookup \<^verbatim>\<open>efa_av_reverse_lookup_dgram\<close> of the
  address vector, whose code is not under src/: a pure lookup from the peer's link
  identifier and queue-pair number to a fabric address, which answers the unspecified
  address \<^verbatim>\<open>FI_ADDR_NOTAVAIL\<close> for an unknown peer.
\<close>

type_synonym efa_av = "16 word \<times> 32 word \<rightharpoonup> 64 word"

definition FI_ADDR_NOTAVAIL :: "64 word" where
  "FI_ADDR_NOTAVAIL = - 1"

definition efa_av_reverse_lookup_dgram :: "efa_av \<Rightarrow> 16 word \<Rightarrow> 32 word \<Rightarrow> 64 word" where
  "efa_av_reverse_lookup_dgram av ahn qpn =
     (case av (ahn, qpn) of None \<Rightarrow> FI_ADDR_NOTAVAIL | Some a \<Rightarrow> a)"

text \<open>
  \<^verbatim>\<open>struct efa_domain\<close>, as far as the queue reads it: the negotiated version
  \<^verbatim>\<open>fabric->util_fabric.fabric_fid.api_version\<close>, the mask \<^verbatim>\<open>qp_table_sz_m1\<close> and, for
  every index of \<^verbatim>\<open>qp_table\<close>, the address vector \<^verbatim>\<open>qp_table[i]->ep->av\<close>.
\<close>

record efa_domain =
  api_version :: "32 word"
  qp_table_sz_m1 :: "64 word"
  qp_table :: "64 word \<Rightarrow> efa_av"

text \<open>
  The calls a queue makes on its lock, its ring and its memory, in the order it makes
  them; the polls are logged with the code they returned.
\<close>

datatype event =
    Ev_spin_init
  | Ev_spin_lock
  | Ev_spin_unlock
  | Ev_spin_destroy
  | Ev_start_poll int
  | Ev_next_poll int
  | Ev_end_poll
  | Ev_calloc
  | Ev_free
  | Ev_ofi_cq_init
  | Ev_ofi_cq_cleanup
  | Ev_ibv_create_cq_ex "32 word"
  | Ev_ibv_destroy_cq
  | Ev_bufpool_create
  | Ev_bufpool_destroy

datatype ofi_spin_t = Spin_unlocked | Spin_locked | Spin_destroyed

text \<open>
  \<^verbatim>\<open>struct efa_cq\<close> of \<^verbatim>\<open>efa.h\<close>: the lock, the ring, the bound formatter with its
  entry size, the domain and the pool of error records (\<open>True\<close> while it exists), with
  the log of the calls made so far.
\<close>

record efa_cq =
  domain :: efa_domain
  entry_size :: nat
  read_entry :: "efa_wc \<Rightarrow> int \<Rightarrow> cq_buf \<Rightarrow> cq_buf option"
  lock :: ofi_spin_t
  wce_pool :: bool
  ibv_cq_ex :: ibv_cq_ex
  trace :: "event list"

definition ofi_spin_lock :: "efa_cq \<Rightarrow> efa_cq" where
  "ofi_spin_lock cq = cq\<lparr>lock := Spin_locked, trace := trace cq @ [Ev_spin_lock]\<rparr>"

definition ofi_spin_unlock :: "efa_cq \<Rightarrow> efa_cq" where
  "ofi_spin_unlock cq = cq\<lparr>lock := Spin_unlocked, trace := trace cq @ [Ev_spin_unlock]\<rparr>"

definition ibv_start_poll :: "efa_cq \<Rightarrow> int \<times> efa_cq" where
  "ibv_start_poll cq =
     (case hw_poll (ibv_cq_ex cq) of
        (r, ex) \<Rightarrow> (r, cq\<lparr>ibv_cq_ex := ex, trace := trace cq @ [Ev_start_poll r]\<rparr>))"

definition ibv_next_poll :: "efa_cq \<Rightarrow> int \<times> efa_cq" where
  "ibv_next_poll cq =
     (case hw_poll (ibv_cq_ex cq) of
        (r, ex) \<Rightarrow> (r, cq\<lparr>ibv_cq_ex := ex, trace := trace cq @ [Ev_next_poll r]\<rparr>))"

definition ibv_end_poll :: "efa_cq \<Rightarrow> efa_cq" where
  "ibv_end_poll cq = cq\<lparr>trace := trace cq @ [Ev_end_poll]\<rparr>"

definition efa_cq_api_version :: "efa_cq \<Rightarrow> 32 word" where
  "efa_cq_api_version cq = api_version (domain cq)"

section \<open>Reading the pending error\<close>

text \<open>
  \<^verbatim>\<open>efa_cq_readerr\<close>: the return value, the queue and the caller's record. The flags
  argument is unused, as in the source; \<^verbatim>\<open>EFA_WARN\<close> only logs.
\<close>

definition efa_cq_readerr ::
  "efa_cq \<Rightarrow> fi_cq_err_entry \<Rightarrow> 64 word \<Rightarrow> (int \<times> efa_cq \<times> fi_cq_err_entry) option" where
  "efa_cq_readerr cq entry fl =
     (let cq = ofi_spin_lock cq in
      if status (ibv_cq_ex cq) = 0 then Some (- FI_EAGAIN, ofi_spin_unlock cq, entry)
      else
        let v = efa_cq_api_version cq;
            entry = entry\<lparr>op_context := wr_id (ibv_cq_ex cq)\<rparr>
        in case efa_cq_opcode_to_fi_flags (ibv_wc_read_opcode (ibv_cq_ex cq)) of
             None \<Rightarrow> None
           | Some f \<Rightarrow>
               let entry = entry\<lparr>flags := f, err := EIO, prov_errno := status (ibv_cq_ex cq)\<rparr>;
                   cq = ofi_spin_unlock cq;
                   entry = (if FI_VERSION_GE v (FI_VERSION 1 5)
                            then entry\<lparr>err_data_size := 0\<rparr> else entry)
               in Some (sizeof_fi_cq_err_entry, cq, entry))"

section \<open>Reading completions\<close>

text \<open>\<^verbatim>\<open>efa_cq_ibv_poll_error_to_fi_error\<close>, on \<^verbatim>\<open>ssize_t\<close>.\<close>

definition efa_cq_ibv_poll_error_to_fi_error :: "int \<Rightarrow> int" where
  "efa_cq_ibv_poll_error_to_fi_error e =
     (if e = ENOENT then - FI_EAGAIN
      else if e > 0 then - e
      else e)"

text \<open>
  The conversions of the entry count: the formatter takes it as an \<^verbatim>\<open>int\<close> of 32 bits,
  and the function returns it as a \<^verbatim>\<open>ssize_t\<close> of 64 bits.
\<close>

definition int_of_size_t :: "nat \<Rightarrow> int" where
  "int_of_size_t n =
     (if n mod 2 ^ 32 < 2 ^ 31 then int (n mod 2 ^ 32) else int (n mod 2 ^ 32) - 2 ^ 32)"

definition ssize_t_of_size_t :: "nat \<Rightarrow> int" where
  "ssize_t_of_size_t n =
     (if n mod 2 ^ 64 < 2 ^ 63 then int (n mod 2 ^ 64) else int (n mod 2 ^ 64) - 2 ^ 64)"

text \<open>
  The \<^verbatim>\<open>while\<close> loop of \<^verbatim>\<open>efa_cq_readfrom\<close>, on the variables it changes: the queue,
  the work completion, the caller's array, the address array (\<open>None\<close> for a null
  pointer), the poll code \<^verbatim>\<open>err\<close> (here \<open>rc\<close>) and the count \<^verbatim>\<open>num_cqe\<close>. The count
  stays below \<^verbatim>\<open>count\<close>, a \<^verbatim>\<open>size_t\<close>, so its increment does not wrap.
\<close>

function efa_cq_readfrom_loop ::
  "efa_cq \<Rightarrow> efa_wc \<Rightarrow> cq_buf \<Rightarrow> nat \<Rightarrow> (nat \<Rightarrow> 64 word) option \<Rightarrow> int \<Rightarrow> nat \<Rightarrow>
   (efa_cq \<times> cq_buf \<times> (nat \<Rightarrow> 64 word) option \<times> int \<times> nat) option" where
  "efa_cq_readfrom_loop cq wc buffer count src_addr rc num_cqe =
     (if rc = 0 \<and> num_cqe < count then
        let wc = wc\<lparr>ibv_wc := efa_cq_wc_from_ibv_cq_ex_unsafe (ibv_cq_ex cq) (ibv_wc wc)\<rparr> in
        if status (ibv_cq_ex cq) \<noteq> 0 then Some (cq, buffer, src_addr, - FI_EAVAIL, num_cqe)
        else
          let src_addr =
                (case src_addr of
                   None \<Rightarrow> None
                 | Some a \<Rightarrow>
                     Some (a(num_cqe :=
                       efa_av_reverse_lookup_dgram
                         (qp_table (domain cq)
                            (ucast (wc_qp_num (ibv_wc wc)) AND qp_table_sz_m1 (domain cq)))
                         (wc_slid (ibv_wc wc))
                         (wc_src_qp (ibv_wc wc)))))
          in case read_entry cq wc (int_of_size_t num_cqe) buffer of
               None \<Rightarrow> None
             | Some buffer \<Rightarrow>
                 efa_cq_readfrom_loop (snd (ibv_next_poll cq)) wc buffer count src_addr
                   (fst (ibv_next_poll cq)) (num_cqe + 1)
      else Some (cq, buffer, src_addr, rc, num_cqe))"
  by pat_completeness auto
termination
  by (relation "measure (\<lambda>(cq, wc, buffer, count, src_addr, rc, num_cqe). count - num_cqe)") auto

text \<open>
  \<^verbatim>\<open>efa_cq_readfrom\<close>: the return value, the queue and the two arrays. The capacity
  \<^verbatim>\<open>count\<close> is a \<^verbatim>\<open>size_t\<close>, a natural number here. The source returns
  \<^verbatim>\<open>num_cqe ? num_cqe : err\<close> as a \<^verbatim>\<open>ssize_t\<close>.
\<close>

definition efa_cq_readfrom ::
  "efa_cq \<Rightarrow> cq_buf \<Rightarrow> nat \<Rightarrow> (nat \<Rightarrow> 64 word) option \<Rightarrow>
   (int \<times> efa_cq \<times> cq_buf \<times> (nat \<Rightarrow> 64 word) option) option" where
  "efa_cq_readfrom cq buffer count src_addr =
     (let cq = ofi_spin_lock cq;
          rc = fst (ibv_start_poll cq);
          cq = snd (ibv_start_poll cq);
          should_end_poll = (rc = 0)
      in case efa_cq_readfrom_loop cq efa_wc_zero buffer count src_addr rc 0 of
           None \<Rightarrow> None
         | Some (cq, buffer, src_addr, rc, num_cqe) \<Rightarrow>
             let rc = efa_cq_ibv_poll_error_to_fi_error rc;
                 cq = (if should_end_poll then ibv_end_poll cq else cq);
                 cq = ofi_spin_unlock cq
             in Some (if num_cqe \<noteq> 0 then ssize_t_of_size_t num_cqe else rc,
                      cq, buffer, src_addr))"

section \<open>Opening and closing a queue\<close>

text \<open>
  \<^verbatim>\<open>enum fi_cq_format\<close> and \<^verbatim>\<open>enum fi_wait_obj\<close> of \<^verbatim>\<open>rdma/fi_eq.h\<close>. A C enum
  holds any integer: \<open>FI_CQ_FORMAT_out_of_range\<close> stands for the values that name no
  format, which the \<^verbatim>\<open>default\<close> branch of \<^verbatim>\<open>efa_cq_open\<close> receives.
\<close>

datatype fi_cq_format =
    FI_CQ_FORMAT_UNSPEC
  | FI_CQ_FORMAT_CONTEXT
  | FI_CQ_FORMAT_MSG
  | FI_CQ_FORMAT_DATA
  | FI_CQ_FORMAT_TAGGED
  | FI_CQ_FORMAT_out_of_range int

datatype fi_wait_obj =
    FI_WAIT_NONE
  | FI_WAIT_UNSPEC
  | FI_WAIT_SET
  | FI_WAIT_FD
  | FI_WAIT_MUTEX_COND
  | FI_WAIT_YIELD
  | FI_WAIT_POLLFD

text \<open>\<^verbatim>\<open>struct fi_cq_attr\<close>, as far as \<^verbatim>\<open>efa_cq_open\<close> reads it.\<close>

record fi_cq_attr =
  attr_size :: "64 word"
  format :: fi_cq_format
  wait_obj :: fi_wait_obj

text \<open>
  Modelled from the spec: the default ring size \<^verbatim>\<open>EFA_DEF_CQ_SIZE\<close> of \<^verbatim>\<open>efa.h\<close>,
  which is not under src/.
\<close>

definition EFA_DEF_CQ_SIZE :: "32 word" where
  "EFA_DEF_CQ_SIZE = 1024"

text \<open>
  The results of the calls \<^verbatim>\<open>efa_cq_open\<close> makes outside this file: whether
  \<^verbatim>\<open>calloc\<close> and \<^verbatim>\<open>ibv_create_cq_ex\<close> return an object, and the codes of
  \<^verbatim>\<open>ofi_cq_init\<close> and \<^verbatim>\<open>ofi_bufpool_create\<close>.
\<close>

record open_env =
  calloc_ok :: bool
  ofi_cq_init_ret :: int
  ibv_create_cq_ex_ok :: bool
  ofi_bufpool_create_ret :: int

text \<open>
  Modelled from the spec: the ring \<^verbatim>\<open>ibv_create_cq_ex\<close> of rdma-core returns, of the
  size asked for, with no completion and no error in it.
\<close>

definition new_ibv_cq_ex :: "32 word \<Rightarrow> ibv_cq_ex" where
  "new_ibv_cq_ex n =
     \<lparr>cqe = n, status = 0, wr_id = 0,
      cur_cqe = \<lparr>cqe_status = 0, cqe_wr_id = 0, cqe_vendor_err = 0, cqe_wc_flags = 0,
                 cqe_qp_num = 0, cqe_opcode = IBV_WC_SEND, cqe_byte_len = 0, cqe_src_qp = 0,
                 cqe_sl = 0, cqe_slid = 0, cqe_imm_data = 0\<rparr>,
      hw_ring = []\<rparr>"

text \<open>
  \<^verbatim>\<open>efa_cq_open\<close>: the return value, the queue stored through \<^verbatim>\<open>cq_fid\<close> (\<open>None\<close>
  when nothing is stored) and the calls made, in order. The labels \<^verbatim>\<open>err_destroy_pool\<close>,
  \<^verbatim>\<open>err_destroy_cq\<close>, \<^verbatim>\<open>err_free_util_cq\<close> and \<^verbatim>\<open>err_free_cq\<close> fall through to one
  another. The ring size is a \<^verbatim>\<open>uint32_t\<close>: the assignment truncates \<^verbatim>\<open>attr->size\<close>.
\<close>

definition efa_cq_open ::
  "open_env \<Rightarrow> efa_domain \<Rightarrow> fi_cq_attr \<Rightarrow> int \<times> efa_cq option \<times> event list" where
  "efa_cq_open env domain_fid attr =
     (if wait_obj attr \<noteq> FI_WAIT_NONE then (- FI_ENOSYS, None, [])
      else if \<not> calloc_ok env then (- FI_ENOMEM, None, [Ev_calloc])
      else if ofi_cq_init_ret env \<noteq> 0
        then (ofi_cq_init_ret env, None, [Ev_calloc, Ev_ofi_cq_init, Ev_free])
      else
        let n = (if attr_size attr \<noteq> 0 then ucast (attr_size attr) else EFA_DEF_CQ_SIZE);
            tr = [Ev_calloc, Ev_ofi_cq_init, Ev_ibv_create_cq_ex n]
        in if \<not> ibv_create_cq_ex_ok env
          then (- FI_EINVAL, None, tr @ [Ev_ofi_cq_cleanup, Ev_free])
        else if ofi_bufpool_create_ret env \<noteq> 0
          then (ofi_bufpool_create_ret env, None,
                tr @ [Ev_bufpool_create, Ev_ibv_destroy_cq, Ev_ofi_cq_cleanup, Ev_free])
        else
          let tr = tr @ [Ev_bufpool_create];
              failed = (- FI_ENOSYS, None,
                        tr @ [Ev_bufpool_destroy, Ev_ibv_destroy_cq, Ev_ofi_cq_cleanup, Ev_free]);
              opened = (\<lambda>rd sz.
                (0,
                 Some \<lparr>domain = domain_fid, entry_size = sz, read_entry = rd,
                       lock = Spin_unlocked, wce_pool = True, ibv_cq_ex = new_ibv_cq_ex n,
                       trace = tr @ [Ev_spin_init]\<rparr>,
                 tr @ [Ev_spin_init]))
          in case format attr of
               FI_CQ_FORMAT_UNSPEC \<Rightarrow> opened efa_cq_read_context_entry sizeof_fi_cq_entry
             | FI_CQ_FORMAT_CONTEXT \<Rightarrow> opened efa_cq_read_context_entry sizeof_fi_cq_entry
             | FI_CQ_FORMAT_MSG \<Rightarrow> opened efa_cq_read_msg_entry sizeof_fi_cq_msg_entry
             | FI_CQ_FORMAT_DATA \<Rightarrow> opened efa_cq_read_data_entry sizeof_fi_cq_data_entry
             | FI_CQ_FORMAT_TAGGED \<Rightarrow> failed
             | FI_CQ_FORMAT_out_of_range v \<Rightarrow> failed)"

text \<open>
  The results of the calls \<^verbatim>\<open>efa_cq_close\<close> makes outside this file:
  \<^verbatim>\<open>ibv_destroy_cq\<close> and \<^verbatim>\<open>ofi_cq_cleanup\<close>.
\<close>

record close_env =
  ibv_destroy_cq_ret :: int
  ofi_cq_cleanup_ret :: int

definition ofi_bufpool_destroy :: "efa_cq \<Rightarrow> efa_cq" where
  "ofi_bufpool_destroy cq = cq\<lparr>wce_pool := False, trace := trace cq @ [Ev_bufpool_destroy]\<rparr>"

definition ofi_spin_destroy :: "efa_cq \<Rightarrow> efa_cq" where
  "ofi_spin_destroy cq = cq\<lparr>lock := Spin_destroyed, trace := trace cq @ [Ev_spin_destroy]\<rparr>"

text \<open>
  \<^verbatim>\<open>efa_cq_close\<close>: the return value and the queue, whose log ends with \<open>Ev_free\<close>
  exactly when the object was freed.
\<close>

definition efa_cq_close :: "close_env \<Rightarrow> efa_cq \<Rightarrow> int \<times> efa_cq" where
  "efa_cq_close env cq =
     (let cq = ofi_bufpool_destroy cq;
          cq = ofi_spin_destroy cq;
          ret = - ibv_destroy_cq_ret env;
          cq = cq\<lparr>trace := trace cq @ [Ev_ibv_destroy_cq]\<rparr>
      in if ret \<noteq> 0 then (ret, cq)
         else
           let ret = ofi_cq_cleanup_ret env;
               cq = cq\<lparr>trace := trace cq @ [Ev_ofi_cq_cleanup]\<rparr>
           in if ret \<noteq> 0 then (ret, cq)
              else (0, cq\<lparr>trace := trace cq @ [Ev_free]\<rparr>))"

section \<open>Vocabulary of the properties\<close>

text \<open>The opcodes the flag derivation accepts.\<close>

definition supported_opcode :: "ibv_wc_opcode \<Rightarrow> bool" where
  "supported_opcode opc = (opc = IBV_WC_SEND \<or> opc = IBV_WC_RECV)"

text \<open>The formatter of a queue is one of the three that \<^verbatim>\<open>efa_cq_open\<close> binds.\<close>

definition bound_formatter :: "(efa_wc \<Rightarrow> int \<Rightarrow> cq_buf \<Rightarrow> cq_buf option) \<Rightarrow> bool" where
  "bound_formatter rd =
     (rd = efa_cq_read_context_entry \<or> rd = efa_cq_read_msg_entry \<or> rd = efa_cq_read_data_entry)"

text \<open>
  The entry layouts as the specification gives them (sections 3 and 4.3), written from
  its words and not from the formatters: a context-only entry holds the operation
  context, which is the work-request identifier of the completion; a message entry holds
  the operation context, the flags and the byte length; a message-and-data entry holds
  these and the immediate data, which is always zero. The flags of a Send completion are
  Send and Message, those of a Receive completion Receive and Message; the specification
  gives no flags to another opcode. A field of the slot that the layout does not name is
  as it was.
\<close>

datatype cq_layout = ContextOnly | Message | MessageAndData

fun spec_flags :: "ibv_wc_opcode \<Rightarrow> 64 word" where
  "spec_flags IBV_WC_SEND = FI_SEND OR FI_MSG"
| "spec_flags IBV_WC_RECV = FI_RECV OR FI_MSG"
| "spec_flags _ = 0"

fun spec_entry :: "cq_layout \<Rightarrow> hw_cqe \<Rightarrow> fi_cq_data_entry \<Rightarrow> fi_cq_data_entry" where
  "spec_entry ContextOnly c e = e\<lparr>op_context := cqe_wr_id c\<rparr>"
| "spec_entry Message c e =
     e\<lparr>op_context := cqe_wr_id c, flags := spec_flags (cqe_opcode c),
       len := ucast (cqe_byte_len c)\<rparr>"
| "spec_entry MessageAndData c e =
     e\<lparr>op_context := cqe_wr_id c, flags := spec_flags (cqe_opcode c),
       len := ucast (cqe_byte_len c), data := 0\<rparr>"

text \<open>The formatter that \<^verbatim>\<open>efa_cq_open\<close> binds for a layout.\<close>

fun formatter_of_layout :: "cq_layout \<Rightarrow> efa_wc \<Rightarrow> int \<Rightarrow> cq_buf \<Rightarrow> cq_buf option" where
  "formatter_of_layout ContextOnly = efa_cq_read_context_entry"
| "formatter_of_layout Message = efa_cq_read_msg_entry"
| "formatter_of_layout MessageAndData = efa_cq_read_data_entry"

text \<open>
  The completions \<open>cs\<close> written in order, as entries of the layout \<open>l\<close>, into the slots
  from \<open>k\<close> on.
\<close>

fun fill_slots :: "cq_layout \<Rightarrow> hw_cqe list \<Rightarrow> nat \<Rightarrow> cq_buf \<Rightarrow> cq_buf" where
  "fill_slots l [] k b = b"
| "fill_slots l (c # cs) k b = fill_slots l cs (k + 1) (b(int k := spec_entry l c (b (int k))))"

text \<open>The ring handle with the cursor on the completion \<open>c\<close> and \<open>r\<close> left in the ring.\<close>

definition cursor_on :: "ibv_cq_ex \<Rightarrow> hw_cqe \<Rightarrow> poll_item list \<Rightarrow> ibv_cq_ex" where
  "cursor_on ex c r = ex\<lparr>status := cqe_status c, wr_id := cqe_wr_id c, cur_cqe := c, hw_ring := r\<rparr>"

fun is_next_poll :: "event \<Rightarrow> bool" where
  "is_next_poll (Ev_next_poll r) = True"
| "is_next_poll _ = False"

fun is_start_poll :: "event \<Rightarrow> bool" where
  "is_start_poll (Ev_start_poll r) = True"
| "is_start_poll _ = False"

text \<open>The calls a function made: the log of the queue it returns, after that of its input.\<close>

definition calls_since :: "efa_cq \<Rightarrow> efa_cq \<Rightarrow> event list" where
  "calls_since cq cq' = drop (length (trace cq)) (trace cq')"

text \<open>Every call \<^verbatim>\<open>efa_cq_open\<close> makes outside this file succeeds.\<close>

definition resources_granted :: "open_env \<Rightarrow> bool" where
  "resources_granted env =
     (calloc_ok env \<and> ofi_cq_init_ret env = 0 \<and> ibv_create_cq_ex_ok env \<and>
      ofi_bufpool_create_ret env = 0)"

text \<open>
  A ring whose completions have opcodes the flag derivation accepts, and whose fault
  codes are not 0.
\<close>

definition ring_supported :: "poll_item list \<Rightarrow> bool" where
  "ring_supported r =
     (\<forall>x\<in>set r. case x of Cqe c \<Rightarrow> supported_opcode (cqe_opcode c) | Fault e \<Rightarrow> e \<noteq> 0)"

section \<open>Concrete queues\<close>

text \<open>
  A domain, completions, a queue over a given formatter and ring, an output array and an
  error record, on which the properties below are evaluated.
\<close>

definition ex_domain :: efa_domain where
  "ex_domain = \<lparr>api_version = FI_VERSION 1 9, qp_table_sz_m1 = 255, qp_table = (\<lambda>i. Map.empty)\<rparr>"

definition ex_cqe :: "64 word \<Rightarrow> ibv_wc_opcode \<Rightarrow> int \<Rightarrow> hw_cqe" where
  "ex_cqe w opc st =
     \<lparr>cqe_status = st, cqe_wr_id = w, cqe_vendor_err = 0, cqe_wc_flags = 0, cqe_qp_num = 3,
      cqe_opcode = opc, cqe_byte_len = 64, cqe_src_qp = 9, cqe_sl = 0, cqe_slid = 2,
      cqe_imm_data = 0\<rparr>"

definition ex_cq :: "(efa_wc \<Rightarrow> int \<Rightarrow> cq_buf \<Rightarrow> cq_buf option) \<Rightarrow> poll_item list \<Rightarrow> efa_cq" where
  "ex_cq rd ring =
     \<lparr>domain = ex_domain, entry_size = sizeof_fi_cq_data_entry, read_entry = rd,
      lock = Spin_unlocked, wce_pool = True,
      ibv_cq_ex = (new_ibv_cq_ex 1024)\<lparr>hw_ring := ring\<rparr>, trace = []\<rparr>"

definition ex_buf :: cq_buf where
  "ex_buf = (\<lambda>i. \<lparr>op_context = 0, flags = 0, len = 0, buf = 0, data = 0\<rparr>)"

definition ex_err_entry :: fi_cq_err_entry where
  "ex_err_entry =
     \<lparr>op_context = 1, flags = 1, len = 1, buf = 1, data = 1, tag = 1, olen = 1, err = 1,
      prov_errno = 1, err_data = 1, err_data_size = 1\<rparr>"

text \<open>An environment in which every call of \<^verbatim>\<open>efa_cq_open\<close> succeeds.\<close>

definition ex_env :: open_env where
  "ex_env = \<lparr>calloc_ok = True, ofi_cq_init_ret = 0, ibv_create_cq_ex_ok = True,
             ofi_bufpool_create_ret = 0\<rparr>"

text \<open>A queue whose cursor is on a Send completion that failed with status 12.\<close>

definition ex_pending_cq :: efa_cq where
  "ex_pending_cq =
     (ex_cq efa_cq_read_msg_entry [])
       \<lparr>ibv_cq_ex := cursor_on (new_ibv_cq_ex 1024) (ex_cqe 7 IBV_WC_SEND 12) []\<rparr>"

section \<open>Lemmas on the model\<close>

declare efa_cq_readfrom_loop.simps [simp del]

lemma int_of_size_t_small: "n < 2 ^ 31 \<Longrightarrow> int_of_size_t n = int n"
  by (simp add: int_of_size_t_def)

lemma ssize_t_of_size_t_small: "n < 2 ^ 63 \<Longrightarrow> ssize_t_of_size_t n = int n"
  by (simp add: ssize_t_of_size_t_def)

lemma data_len_commute:
  "(e :: fi_cq_data_entry)\<lparr>op_context := a, flags := f, data := d, len := n\<rparr> =
   e\<lparr>op_context := a, flags := f, len := n, data := d\<rparr>"
  by (rule fi_cq_data_entry.equality) simp_all

lemma formatter_writes:
  assumes "supported_opcode (cqe_opcode c)"
    "wc_wr_id (ibv_wc w) = cqe_wr_id c" "wc_opcode (ibv_wc w) = cqe_opcode c"
    "wc_byte_len (ibv_wc w) = cqe_byte_len c"
  shows "formatter_of_layout l w i b = Some (b(i := spec_entry l c (b i)))"
  using assms
  by (cases l)
    (auto simp: supported_opcode_def efa_cq_read_context_entry_def efa_cq_read_msg_entry_def
      efa_cq_read_data_entry_def efa_cq_wc_to_fi_flags_def data_len_commute)

lemma bound_formatter_layout: "bound_formatter (formatter_of_layout l)"
  by (cases l) (simp_all add: bound_formatter_def)

lemma hw_poll_Cqe:
  "hw_ring ex = Cqe c # r \<Longrightarrow> hw_poll ex = (0, cursor_on ex c r)"
  by (simp add: hw_poll_def cursor_on_def)

lemma hw_poll_Nil: "hw_ring ex = [] \<Longrightarrow> hw_poll ex = (ENOENT, ex)"
  by (simp add: hw_poll_def)

lemma cursor_on_sel [simp]:
  "status (cursor_on ex c r) = cqe_status c"
  "wr_id (cursor_on ex c r) = cqe_wr_id c"
  "cur_cqe (cursor_on ex c r) = c"
  "hw_ring (cursor_on ex c r) = r"
  "cqe (cursor_on ex c r) = cqe ex"
  by (simp_all add: cursor_on_def)

lemma cursor_on_twice [simp]: "cursor_on (cursor_on ex c r) c' r' = cursor_on ex c' r'"
  by (simp add: cursor_on_def)

lemma loop_step:
  assumes "read_entry cq = formatter_of_layout l" "ibv_cq_ex cq = cursor_on ex c r"
    "cqe_status c = 0" "supported_opcode (cqe_opcode c)" "k < count" "k < 2 ^ 31"
  shows "\<exists>w' s'. efa_cq_readfrom_loop cq w b count s 0 k =
           efa_cq_readfrom_loop (snd (ibv_next_poll cq)) w'
             (b(int k := spec_entry l c (b (int k)))) count s'
             (fst (ibv_next_poll cq)) (k + 1)"
proof -
  let ?w = "w\<lparr>ibv_wc := efa_cq_wc_from_ibv_cq_ex_unsafe (ibv_cq_ex cq) (ibv_wc w)\<rparr>"
  have "formatter_of_layout l ?w (int k) b = Some (b(int k := spec_entry l c (b (int k))))"
    using assms
    by (intro formatter_writes)
      (simp_all add: efa_cq_wc_from_ibv_cq_ex_unsafe_def ibv_wc_read_opcode_def)
  then show ?thesis
    using assms
    by (subst efa_cq_readfrom_loop.simps) (auto simp: Let_def int_of_size_t_small)
qed


lemma ibv_next_poll_sel [simp]:
  "fst (ibv_next_poll cq) = fst (hw_poll (ibv_cq_ex cq))"
  "ibv_cq_ex (snd (ibv_next_poll cq)) = snd (hw_poll (ibv_cq_ex cq))"
  "read_entry (snd (ibv_next_poll cq)) = read_entry cq"
  "entry_size (snd (ibv_next_poll cq)) = entry_size cq"
  "lock (snd (ibv_next_poll cq)) = lock cq"
  "domain (snd (ibv_next_poll cq)) = domain cq"
  "trace (snd (ibv_next_poll cq)) = trace cq @ [Ev_next_poll (fst (hw_poll (ibv_cq_ex cq)))]"
  by (simp_all add: ibv_next_poll_def split: prod.splits)

lemma loop_run:
  assumes "read_entry cq = formatter_of_layout l"
    and "ibv_cq_ex cq = cursor_on ex c (map Cqe cs @ rest)"
    and "\<forall>x\<in>set (c # cs). cqe_status x = 0 \<and> supported_opcode (cqe_opcode x)"
    and "k + length (c # cs) \<le> count"
    and "k + length (c # cs) \<le> 2 ^ 31"
  shows "\<exists>cq' w' s'.
           efa_cq_readfrom_loop cq w b count s 0 k =
             efa_cq_readfrom_loop cq' w' (fill_slots l (c # cs) k b) count s'
               (fst (hw_poll (cursor_on ex (last (c # cs)) rest))) (k + length (c # cs)) \<and>
           ibv_cq_ex cq' = snd (hw_poll (cursor_on ex (last (c # cs)) rest)) \<and>
           read_entry cq' = read_entry cq \<and> lock cq' = lock cq \<and> domain cq' = domain cq"
  using assms
proof (induction cs arbitrary: cq c k b w s)
  case Nil
  from Nil.prems obtain w' s' where
    "efa_cq_readfrom_loop cq w b count s 0 k =
       efa_cq_readfrom_loop (snd (ibv_next_poll cq)) w'
         (b(int k := spec_entry l c (b (int k)))) count s'
         (fst (ibv_next_poll cq)) (k + 1)"
    using loop_step [of cq l ex c rest k count w b s] by auto
  with Nil.prems show ?case
    by (intro exI [of _ "snd (ibv_next_poll cq)"] exI [of _ w'] exI [of _ s']) (simp add: fun_upd_def)
next
  case (Cons d ds)
  let ?cq1 = "snd (ibv_next_poll cq)"
  let ?b1 = "b(int k := spec_entry l c (b (int k)))"
  from Cons.prems obtain w1 s1 where step:
    "efa_cq_readfrom_loop cq w b count s 0 k =
       efa_cq_readfrom_loop ?cq1 w1 ?b1 count s1 (fst (ibv_next_poll cq)) (k + 1)"
    using loop_step [of cq l ex c "map Cqe (d # ds) @ rest" k count w b s] by auto
  have poll: "hw_poll (ibv_cq_ex cq) = (0, cursor_on ex d (map Cqe ds @ rest))"
    using Cons.prems(2) by (simp add: hw_poll_Cqe)
  have "\<exists>cq' w' s'.
          efa_cq_readfrom_loop ?cq1 w1 ?b1 count s1 0 (k + 1) =
            efa_cq_readfrom_loop cq' w' (fill_slots l (d # ds) (k + 1) ?b1) count s'
              (fst (hw_poll (cursor_on ex (last (d # ds)) rest))) (k + 1 + length (d # ds)) \<and>
          ibv_cq_ex cq' = snd (hw_poll (cursor_on ex (last (d # ds)) rest)) \<and>
          read_entry cq' = read_entry ?cq1 \<and> lock cq' = lock ?cq1 \<and> domain cq' = domain ?cq1"
    using Cons.prems poll by (intro Cons.IH) simp_all
  then obtain cq' w' s' where
    "efa_cq_readfrom_loop ?cq1 w1 ?b1 count s1 0 (k + 1) =
       efa_cq_readfrom_loop cq' w' (fill_slots l (d # ds) (k + 1) ?b1) count s'
         (fst (hw_poll (cursor_on ex (last (d # ds)) rest))) (k + 1 + length (d # ds))"
    "ibv_cq_ex cq' = snd (hw_poll (cursor_on ex (last (d # ds)) rest))"
    "read_entry cq' = read_entry ?cq1" "lock cq' = lock ?cq1" "domain cq' = domain ?cq1"
    by blast
  with step poll show ?case
    by (intro exI [of _ cq'] exI [of _ w'] exI [of _ s']) (simp add: fun_upd_def)
qed

lemma fill_slots_outside: "j < int k \<or> int (k + length cs) \<le> j \<Longrightarrow> fill_slots l cs k b j = b j"
  by (induction cs arbitrary: k b) auto

lemma fill_slots_inside:
  "i < length cs \<Longrightarrow> fill_slots l cs k b (int (k + i)) = spec_entry l (cs ! i) (b (int (k + i)))"
proof (induction cs arbitrary: k b i)
  case Nil
  then show ?case by simp
next
  case (Cons c cs)
  show ?case
  proof (cases i)
    case 0
    then show ?thesis by (simp add: fill_slots_outside)
  next
    case (Suc j)
    with Cons.prems have "j < length cs" by simp
    from Cons.IH [OF this, of "k + 1"] Suc show ?thesis by simp
  qed
qed


lemma loop_stop:
  "\<not> (rc = 0 \<and> k < count) \<Longrightarrow>
   efa_cq_readfrom_loop cq w b count s rc k = Some (cq, b, s, rc, k)"
  by (subst efa_cq_readfrom_loop.simps) auto

lemma loop_errored:
  "k < count \<Longrightarrow> status (ibv_cq_ex cq) \<noteq> 0 \<Longrightarrow>
   efa_cq_readfrom_loop cq w b count s 0 k = Some (cq, b, s, - FI_EAVAIL, k)"
  by (subst efa_cq_readfrom_loop.simps) (simp add: Let_def)

lemma ibv_start_poll_sel [simp]:
  "fst (ibv_start_poll cq) = fst (hw_poll (ibv_cq_ex cq))"
  "ibv_cq_ex (snd (ibv_start_poll cq)) = snd (hw_poll (ibv_cq_ex cq))"
  "read_entry (snd (ibv_start_poll cq)) = read_entry cq"
  "entry_size (snd (ibv_start_poll cq)) = entry_size cq"
  "lock (snd (ibv_start_poll cq)) = lock cq"
  "domain (snd (ibv_start_poll cq)) = domain cq"
  "trace (snd (ibv_start_poll cq)) = trace cq @ [Ev_start_poll (fst (hw_poll (ibv_cq_ex cq)))]"
  by (simp_all add: ibv_start_poll_def split: prod.splits)

lemma ofi_spin_lock_sel [simp]:
  "ibv_cq_ex (ofi_spin_lock cq) = ibv_cq_ex cq"
  "read_entry (ofi_spin_lock cq) = read_entry cq"
  "entry_size (ofi_spin_lock cq) = entry_size cq"
  "domain (ofi_spin_lock cq) = domain cq"
  "lock (ofi_spin_lock cq) = Spin_locked"
  "trace (ofi_spin_lock cq) = trace cq @ [Ev_spin_lock]"
  by (simp_all add: ofi_spin_lock_def)

lemma ofi_spin_unlock_sel [simp]:
  "ibv_cq_ex (ofi_spin_unlock cq) = ibv_cq_ex cq"
  "read_entry (ofi_spin_unlock cq) = read_entry cq"
  "entry_size (ofi_spin_unlock cq) = entry_size cq"
  "domain (ofi_spin_unlock cq) = domain cq"
  "lock (ofi_spin_unlock cq) = Spin_unlocked"
  "trace (ofi_spin_unlock cq) = trace cq @ [Ev_spin_unlock]"
  by (simp_all add: ofi_spin_unlock_def)

lemma ibv_end_poll_sel [simp]:
  "ibv_cq_ex (ibv_end_poll cq) = ibv_cq_ex cq"
  "read_entry (ibv_end_poll cq) = read_entry cq"
  "entry_size (ibv_end_poll cq) = entry_size cq"
  "domain (ibv_end_poll cq) = domain cq"
  "lock (ibv_end_poll cq) = lock cq"
  "trace (ibv_end_poll cq) = trace cq @ [Ev_end_poll]"
  by (simp_all add: ibv_end_poll_def)

lemma cursor_on_self: "hw_ring ex = r' \<Longrightarrow> cursor_on (cursor_on ex c r) c' r' = cursor_on ex c' r'"
  by simp

lemma readfrom_prefix:
  assumes fmt: "read_entry cq = formatter_of_layout l"
    and ring: "hw_ring (ibv_cq_ex cq) = map Cqe (c # cs) @ rest"
    and good: "\<forall>x\<in>set (c # cs). cqe_status x = 0 \<and> supported_opcode (cqe_opcode x)"
    and le: "length (c # cs) \<le> count" and small: "length (c # cs) < 2 ^ 31"
    and stop: "length (c # cs) = count \<or> rest = [] \<or>
               (\<exists>bad r. rest = Cqe bad # r \<and> cqe_status bad \<noteq> 0)"
  shows "\<exists>cq' s'. efa_cq_readfrom cq b count s =
           Some (int (length (c # cs)), cq', fill_slots l (c # cs) 0 b, s') \<and>
           ibv_cq_ex cq' = snd (hw_poll (cursor_on (ibv_cq_ex cq) (last (c # cs)) rest))"
proof -
  let ?ex = "ibv_cq_ex cq"
  let ?n = "length (c # cs)"
  let ?cq1 = "snd (ibv_start_poll (ofi_spin_lock cq))"
  let ?B = "fill_slots l (c # cs) 0 b"
  let ?rc = "fst (hw_poll (cursor_on ?ex (last (c # cs)) rest))"
  let ?ex' = "snd (hw_poll (cursor_on ?ex (last (c # cs)) rest))"
  have start: "hw_poll ?ex = (0, cursor_on ?ex c (map Cqe cs @ rest))"
    using ring by (simp add: hw_poll_Cqe)
  have "\<exists>cq' w' s'.
          efa_cq_readfrom_loop ?cq1 efa_wc_zero b count s 0 0 =
            efa_cq_readfrom_loop cq' w' (fill_slots l (c # cs) 0 b) count s'
              ?rc (0 + ?n) \<and>
          ibv_cq_ex cq' = ?ex' \<and>
          read_entry cq' = read_entry ?cq1 \<and> lock cq' = lock ?cq1 \<and> domain cq' = domain ?cq1"
    using fmt good le small start by (intro loop_run) simp_all
  then obtain cq1' w' s' where run:
    "efa_cq_readfrom_loop ?cq1 efa_wc_zero b count s 0 0 =
       efa_cq_readfrom_loop cq1' w' ?B count s' ?rc ?n"
    "ibv_cq_ex cq1' = ?ex'"
    by auto
  have "\<exists>rc'. efa_cq_readfrom_loop cq1' w' ?B count s' ?rc ?n = Some (cq1', ?B, s', rc', ?n)"
  proof -
    consider "?n = count" | "?n < count" "rest = []"
      | bad r where "?n < count" "rest = Cqe bad # r" "cqe_status bad \<noteq> 0"
      using stop le by fastforce
    then show ?thesis
    proof cases
      case 1
      then show ?thesis by (simp add: loop_stop)
    next
      case 2
      then have "?rc \<noteq> 0" by (simp add: hw_poll_Nil ENOENT_def)
      then show ?thesis by (simp add: loop_stop)
    next
      case 3
      then have "?rc = 0" "status (ibv_cq_ex cq1') \<noteq> 0"
        using run(2) by (simp_all add: hw_poll_Cqe)
      with 3(1) show ?thesis by (simp add: loop_errored)
    qed
  qed
  then obtain rc' where
    "efa_cq_readfrom_loop ?cq1 efa_wc_zero b count s 0 0 = Some (cq1', ?B, s', rc', ?n)"
    using run(1) by auto
  with start run(2) small show ?thesis
    by (simp add: efa_cq_readfrom_def Let_def ssize_t_of_size_t_small)
qed

lemma readfrom_empty:
  assumes "hw_ring (ibv_cq_ex cq) = []"
  shows "efa_cq_readfrom cq b count s =
           Some (- FI_EAGAIN, ofi_spin_unlock (snd (ibv_start_poll (ofi_spin_lock cq))), b, s)"
proof -
  have "hw_poll (ibv_cq_ex cq) = (ENOENT, ibv_cq_ex cq)"
    using assms by (rule hw_poll_Nil)
  then show ?thesis
    by (simp add: efa_cq_readfrom_def Let_def loop_stop ENOENT_def
        efa_cq_ibv_poll_error_to_fi_error_def)
qed

lemma loop_trace:
  "efa_cq_readfrom_loop cq w b count s rc k = Some (cq', b', s', rc', k') \<Longrightarrow>
   \<exists>nexts. trace cq' = trace cq @ nexts \<and> (\<forall>e\<in>set nexts. is_next_poll e) \<and>
           lock cq' = lock cq \<and> read_entry cq' = read_entry cq \<and>
           entry_size cq' = entry_size cq \<and>
           (count \<le> k \<longrightarrow> nexts = [] \<and> b' = b \<and> s' = s)"
proof (induction cq w b count s rc k rule: efa_cq_readfrom_loop.induct)
  case (1 cq wc buffer count src_addr rc num_cqe)
  show ?case
  proof (cases "rc = 0 \<and> num_cqe < count")
    case False
    with "1.prems" show ?thesis by (simp add: loop_stop)
  next
    case True
    let ?wc = "wc\<lparr>ibv_wc := efa_cq_wc_from_ibv_cq_ex_unsafe (ibv_cq_ex cq) (ibv_wc wc)\<rparr>"
    show ?thesis
    proof (cases "status (ibv_cq_ex cq) \<noteq> 0")
      case True
      with \<open>rc = 0 \<and> num_cqe < count\<close> "1.prems" show ?thesis
        by (simp add: loop_errored)
    next
      case False
      let ?src = "case src_addr of None \<Rightarrow> None
                 | Some a \<Rightarrow>
                     Some (a(num_cqe :=
                       efa_av_reverse_lookup_dgram
                         (qp_table (domain cq)
                            (ucast (wc_qp_num (ibv_wc ?wc)) AND qp_table_sz_m1 (domain cq)))
                         (wc_slid (ibv_wc ?wc))
                         (wc_src_qp (ibv_wc ?wc))))"
      from "1.prems" \<open>rc = 0 \<and> num_cqe < count\<close> False
      obtain buffer' where rd: "read_entry cq ?wc (int_of_size_t num_cqe) buffer = Some buffer'"
        and rec: "efa_cq_readfrom_loop (snd (ibv_next_poll cq)) ?wc buffer' count ?src
                    (fst (ibv_next_poll cq)) (num_cqe + 1) = Some (cq', b', s', rc', k')"
        by (subst (asm) efa_cq_readfrom_loop.simps) (auto simp: Let_def split: option.splits)
      from "1.IH" [OF \<open>rc = 0 \<and> num_cqe < count\<close> refl _ refl rd rec] False
      obtain nexts where "trace cq' = trace (snd (ibv_next_poll cq)) @ nexts"
        "\<forall>e\<in>set nexts. is_next_poll e" "lock cq' = lock (snd (ibv_next_poll cq))"
        "read_entry cq' = read_entry (snd (ibv_next_poll cq))"
        "entry_size cq' = entry_size (snd (ibv_next_poll cq))"
        by auto
      with \<open>rc = 0 \<and> num_cqe < count\<close> show ?thesis
        by (intro exI [of _ "Ev_next_poll (fst (hw_poll (ibv_cq_ex cq))) # nexts"]) simp
    qed
  qed
qed

lemma readfrom_trace:
  assumes "efa_cq_readfrom cq b count s = Some (r, cq', b', s')"
  shows "\<exists>nexts. trace cq' =
           trace cq @ Ev_spin_lock # Ev_start_poll (fst (hw_poll (ibv_cq_ex cq))) # nexts @
             (if fst (hw_poll (ibv_cq_ex cq)) = 0 then [Ev_end_poll] else []) @ [Ev_spin_unlock] \<and>
           (\<forall>e\<in>set nexts. is_next_poll e) \<and> lock cq' = Spin_unlocked \<and>
           read_entry cq' = read_entry cq \<and> entry_size cq' = entry_size cq \<and>
           (count = 0 \<longrightarrow> nexts = [] \<and> b' = b \<and> s' = s)"
proof -
  let ?cq1 = "snd (ibv_start_poll (ofi_spin_lock cq))"
  let ?rc0 = "fst (hw_poll (ibv_cq_ex cq))"
  from assms obtain cq2 rc2 k2 where
    loop: "efa_cq_readfrom_loop ?cq1 efa_wc_zero b count s ?rc0 0 = Some (cq2, b', s', rc2, k2)"
    and cq': "cq' = ofi_spin_unlock (if ?rc0 = 0 then ibv_end_poll cq2 else cq2)"
    by (auto simp: efa_cq_readfrom_def Let_def split: option.splits)
  from loop_trace [OF loop] obtain nexts where
    "trace cq2 = trace ?cq1 @ nexts" "\<forall>e\<in>set nexts. is_next_poll e"
    "read_entry cq2 = read_entry ?cq1" "entry_size cq2 = entry_size ?cq1"
    "count \<le> 0 \<longrightarrow> nexts = [] \<and> b' = b \<and> s' = s"
    by auto
  with cq' show ?thesis
    by (intro exI [of _ nexts]) simp
qed

lemma formatter_returns:
  "bound_formatter rd \<Longrightarrow> supported_opcode (wc_opcode (ibv_wc w)) \<Longrightarrow> \<exists>b'. rd w i b = Some b'"
  by (auto simp: bound_formatter_def supported_opcode_def efa_cq_read_context_entry_def
      efa_cq_read_msg_entry_def efa_cq_read_data_entry_def efa_cq_wc_to_fi_flags_def)

lemma loop_returns:
  "bound_formatter (read_entry cq) \<Longrightarrow>
   \<forall>c. Cqe c \<in> set (hw_ring (ibv_cq_ex cq)) \<longrightarrow> supported_opcode (cqe_opcode c) \<Longrightarrow>
   supported_opcode (cqe_opcode (cur_cqe (ibv_cq_ex cq))) \<Longrightarrow>
   efa_cq_readfrom_loop cq w b count s rc k \<noteq> None"
proof (induction cq w b count s rc k rule: efa_cq_readfrom_loop.induct)
  case (1 cq wc buffer count src_addr rc num_cqe)
  show ?case
  proof (cases "rc = 0 \<and> num_cqe < count")
    case False
    then show ?thesis by (simp add: loop_stop)
  next
    case True
    let ?wc = "wc\<lparr>ibv_wc := efa_cq_wc_from_ibv_cq_ex_unsafe (ibv_cq_ex cq) (ibv_wc wc)\<rparr>"
    show ?thesis
    proof (cases "status (ibv_cq_ex cq) \<noteq> 0")
      case True
      with \<open>rc = 0 \<and> num_cqe < count\<close> show ?thesis
        by (simp add: loop_errored)
    next
      case False
      let ?src = "case src_addr of None \<Rightarrow> None
                 | Some a \<Rightarrow>
                     Some (a(num_cqe :=
                       efa_av_reverse_lookup_dgram
                         (qp_table (domain cq)
                            (ucast (wc_qp_num (ibv_wc ?wc)) AND qp_table_sz_m1 (domain cq)))
                         (wc_slid (ibv_wc ?wc))
                         (wc_src_qp (ibv_wc ?wc))))"
      let ?c = "cur_cqe (ibv_cq_ex cq)"
      have "\<exists>b'. read_entry cq ?wc (int_of_size_t num_cqe) buffer = Some b'"
        using "1.prems"
        by (intro formatter_returns)
          (simp_all add: efa_cq_wc_from_ibv_cq_ex_unsafe_def ibv_wc_read_opcode_def)
      then obtain buffer' where rd: "read_entry cq ?wc (int_of_size_t num_cqe) buffer = Some buffer'"
        by blast
      have ring: "\<forall>c. Cqe c \<in> set (hw_ring (snd (hw_poll (ibv_cq_ex cq)))) \<longrightarrow>
                    supported_opcode (cqe_opcode c)"
        using "1.prems"(2) by (auto simp: hw_poll_def split: list.splits poll_item.splits)
      have cur: "supported_opcode (cqe_opcode (cur_cqe (snd (hw_poll (ibv_cq_ex cq)))))"
        using "1.prems"(2,3) by (auto simp: hw_poll_def split: list.splits poll_item.splits)
      have "efa_cq_readfrom_loop (snd (ibv_next_poll cq)) ?wc buffer' count ?src
              (fst (ibv_next_poll cq)) (num_cqe + 1) \<noteq> None"
        using "1.prems"(1) ring cur
        by (intro "1.IH" [OF \<open>rc = 0 \<and> num_cqe < count\<close> refl _ refl rd]) (simp_all add: False)
      moreover have "efa_cq_readfrom_loop cq wc buffer count src_addr rc num_cqe =
              efa_cq_readfrom_loop (snd (ibv_next_poll cq)) ?wc buffer' count ?src
              (fst (ibv_next_poll cq)) (num_cqe + 1)"
        using \<open>rc = 0 \<and> num_cqe < count\<close> False rd
        by (subst efa_cq_readfrom_loop.simps) (simp add: Let_def)
      ultimately show ?thesis by simp
    qed
  qed
qed


lemma readfrom_returns:
  assumes "bound_formatter (read_entry cq)" and "ring_supported (hw_ring (ibv_cq_ex cq))"
  shows "efa_cq_readfrom cq b count s \<noteq> None"
proof -
  let ?cq1 = "snd (ibv_start_poll (ofi_spin_lock cq))"
  let ?rc0 = "fst (hw_poll (ibv_cq_ex cq))"
  have "efa_cq_readfrom_loop ?cq1 efa_wc_zero b count s ?rc0 0 \<noteq> None"
  proof (cases "hw_ring (ibv_cq_ex cq)")
    case Nil
    then have "?rc0 \<noteq> 0" by (simp add: hw_poll_Nil ENOENT_def)
    then show ?thesis by (simp add: loop_stop)
  next
    case (Cons x r)
    show ?thesis
    proof (cases x)
      case (Cqe c)
      with Cons assms show ?thesis
        by (intro loop_returns) (auto simp: hw_poll_Cqe ring_supported_def split: poll_item.splits)
    next
      case (Fault e)
      with Cons assms have "?rc0 \<noteq> 0"
        by (simp add: hw_poll_def ring_supported_def)
      then show ?thesis by (simp add: loop_stop)
    qed
  qed
  then show ?thesis
    by (auto simp: efa_cq_readfrom_def Let_def split: option.splits)
qed

lemma readfrom_zero:
  assumes "hw_ring (ibv_cq_ex cq) = Cqe c # r"
  shows "efa_cq_readfrom cq b 0 s =
           Some (0, ofi_spin_unlock (ibv_end_poll (snd (ibv_start_poll (ofi_spin_lock cq)))), b, s)"
  using assms
  by (simp add: efa_cq_readfrom_def Let_def loop_stop hw_poll_Cqe
      efa_cq_ibv_poll_error_to_fi_error_def ENOENT_def)

lemma readfrom_first_errored:
  assumes "hw_ring (ibv_cq_ex cq) = Cqe bad # r" and "cqe_status bad \<noteq> 0" and "0 < count"
  shows "efa_cq_readfrom cq b count s =
           Some (- FI_EAVAIL,
                 ofi_spin_unlock (ibv_end_poll (snd (ibv_start_poll (ofi_spin_lock cq)))), b, s)"
  using assms
  by (simp add: efa_cq_readfrom_def Let_def loop_errored hw_poll_Cqe
      efa_cq_ibv_poll_error_to_fi_error_def ENOENT_def FI_EAVAIL_def)

lemma readfrom_all_ready:
  assumes fmt: "read_entry cq = formatter_of_layout l"
    and ring: "hw_ring (ibv_cq_ex cq) = map Cqe cs"
    and good: "\<forall>x\<in>set cs. cqe_status x = 0 \<and> supported_opcode (cqe_opcode x)"
    and small: "length cs < 2 ^ 31"
  shows "\<exists>cq' s'. efa_cq_readfrom cq b count s =
           Some (if cs = [] then - FI_EAGAIN else int (min (length cs) count), cq',
                 fill_slots l (take count cs) 0 b, s')"
proof (cases "cs = []")
  case True
  with ring readfrom_empty [of cq b count s] show ?thesis by simp
next
  case False
  show ?thesis
  proof (cases "count = 0")
    case True
    from False ring obtain c r where "hw_ring (ibv_cq_ex cq) = Cqe c # r"
      by (cases cs) auto
    from readfrom_zero [OF this, of b s] True False show ?thesis by simp
  next
    case nz: False
    let ?n = "min (length cs) count"
    from False nz obtain c cs' where tk: "take count cs = c # cs'"
      by (cases cs; cases count) auto
    have len: "length (c # cs') = ?n"
      using tk by (metis length_take)
    have ring': "hw_ring (ibv_cq_ex cq) = map Cqe (c # cs') @ map Cqe (drop count cs)"
      using ring tk by (metis append_take_drop_id map_append)
    have good': "\<forall>x\<in>set (c # cs'). cqe_status x = 0 \<and> supported_opcode (cqe_opcode x)"
      using good tk by (metis in_set_takeD)
    have stop: "length (c # cs') = count \<or> map Cqe (drop count cs) = [] \<or>
                (\<exists>bad r. map Cqe (drop count cs) = Cqe bad # r \<and> cqe_status bad \<noteq> 0)"
      using len by (cases "count \<le> length cs") auto
    have "length (c # cs') \<le> count" "length (c # cs') < 2 ^ 31"
      using len small by linarith+
    from readfrom_prefix [OF fmt ring' good' this stop, of b s]
    obtain cq' s' where
      "efa_cq_readfrom cq b count s =
         Some (int (length (c # cs')), cq', fill_slots l (c # cs') 0 b, s')"
      by blast
    then have "efa_cq_readfrom cq b count s =
         Some (int ?n, cq', fill_slots l (take count cs) 0 b, s')"
      unfolding len tk .
    with False show ?thesis by auto
  qed
qed

lemma readfrom_until_error:
  assumes fmt: "read_entry cq = formatter_of_layout l"
    and ring: "hw_ring (ibv_cq_ex cq) = map Cqe cs @ Cqe bad # rest"
    and good: "\<forall>x\<in>set cs. cqe_status x = 0 \<and> supported_opcode (cqe_opcode x)"
    and bad: "cqe_status bad \<noteq> 0"
    and lt: "length cs < count" and small: "length cs < 2 ^ 31"
  shows "\<exists>cq' s'. efa_cq_readfrom cq b count s =
           Some (if cs = [] then - FI_EAVAIL else int (length cs), cq',
                 fill_slots l cs 0 b, s') \<and>
           ibv_cq_ex cq' = cursor_on (ibv_cq_ex cq) bad rest"
proof (cases cs)
  case Nil
  with ring have "hw_ring (ibv_cq_ex cq) = Cqe bad # rest" by simp
  from readfrom_first_errored [OF this bad, of count b s] lt Nil this show ?thesis
    by (simp add: hw_poll_Cqe)
next
  case (Cons c cs')
  have ring': "hw_ring (ibv_cq_ex cq) = map Cqe (c # cs') @ Cqe bad # rest"
    using ring Cons by simp
  have stop: "length (c # cs') = count \<or> Cqe bad # rest = [] \<or>
              (\<exists>b r. Cqe bad # rest = Cqe b # r \<and> cqe_status b \<noteq> 0)"
    using bad by simp
  have good': "\<forall>x\<in>set (c # cs'). cqe_status x = 0 \<and> supported_opcode (cqe_opcode x)"
    using good Cons by simp
  have "length (c # cs') \<le> count" "length (c # cs') < 2 ^ 31"
    using lt small Cons by simp_all
  from readfrom_prefix [OF fmt ring' good' this stop, of b s]
  obtain cq' s' where
    "efa_cq_readfrom cq b count s =
       Some (int (length (c # cs')), cq', fill_slots l (c # cs') 0 b, s')"
    "ibv_cq_ex cq' = snd (hw_poll (cursor_on (ibv_cq_ex cq) (last (c # cs')) (Cqe bad # rest)))"
    by blast
  then have "efa_cq_readfrom cq b count s =
       Some (int (length cs), cq', fill_slots l cs 0 b, s')"
    "ibv_cq_ex cq' = cursor_on (ibv_cq_ex cq) bad rest"
    unfolding Cons by (simp_all add: hw_poll_Cqe)
  with Cons show ?thesis by auto
qed

lemma calls_since_append: "trace cq' = trace cq @ evs \<Longrightarrow> calls_since cq cq' = evs"
  by (simp add: calls_since_def)

lemma next_polls_filter:
  "\<forall>e\<in>set nexts. is_next_poll e \<Longrightarrow>
   filter is_start_poll nexts = [] \<and> count_list nexts Ev_end_poll = 0 \<and>
   count_list nexts Ev_spin_lock = 0 \<and> count_list nexts Ev_spin_unlock = 0"
proof (induction nexts)
  case Nil
  then show ?case by simp
next
  case (Cons e nexts)
  then show ?case by (cases e) simp_all
qed

lemma ex_cq_sel:
  "read_entry (ex_cq rd ring) = rd"
  "hw_ring (ibv_cq_ex (ex_cq rd ring)) = ring"
  "trace (ex_cq rd ring) = []"
  "status (ibv_cq_ex (ex_cq rd ring)) = 0"
  by (simp_all add: ex_cq_def new_ibv_cq_ex_def)

lemma ex_cqe_sel:
  "cqe_status (ex_cqe w opc st) = st"
  "cqe_wr_id (ex_cqe w opc st) = w"
  "cqe_opcode (ex_cqe w opc st) = opc"
  "cqe_byte_len (ex_cqe w opc st) = 64"
  by (simp_all add: ex_cqe_def)

lemma readfrom_calls:
  assumes "efa_cq_readfrom cq b count s = Some (r, cq', b', s')"
  shows "\<exists>nexts. calls_since cq cq' =
           Ev_spin_lock # Ev_start_poll (fst (hw_poll (ibv_cq_ex cq))) # nexts @
             (if fst (hw_poll (ibv_cq_ex cq)) = 0 then [Ev_end_poll] else []) @ [Ev_spin_unlock] \<and>
           (\<forall>e\<in>set nexts. is_next_poll e) \<and>
           (count = 0 \<longrightarrow> nexts = [] \<and> b' = b \<and> s' = s)"
proof -
  from readfrom_trace [OF assms] obtain nexts where
    t: "trace cq' =
          trace cq @ Ev_spin_lock # Ev_start_poll (fst (hw_poll (ibv_cq_ex cq))) # nexts @
            (if fst (hw_poll (ibv_cq_ex cq)) = 0 then [Ev_end_poll] else []) @ [Ev_spin_unlock]"
    and n: "\<forall>e\<in>set nexts. is_next_poll e" "count = 0 \<longrightarrow> nexts = [] \<and> b' = b \<and> s' = s"
    by blast
  from calls_since_append [OF t] n show ?thesis by blast
qed

lemma ex_bound: "bound_formatter efa_cq_read_msg_entry"
  by (simp add: bound_formatter_def)

lemma open_wait:
  "wait_obj attr \<noteq> FI_WAIT_NONE \<Longrightarrow> efa_cq_open env dm attr = (- FI_ENOSYS, None, [])"
  by (simp add: efa_cq_open_def)

lemma open_never_unsupported:
  assumes "format attr = FI_CQ_FORMAT_TAGGED \<or> (\<exists>v. format attr = FI_CQ_FORMAT_out_of_range v)"
  shows "fst (efa_cq_open env dm attr) \<noteq> 0 \<and> fst (snd (efa_cq_open env dm attr)) = None"
  using assms by (auto simp: efa_cq_open_def Let_def FI_ENOSYS_def FI_ENOMEM_def FI_EINVAL_def)

lemma open_unsupported:
  assumes "format attr = FI_CQ_FORMAT_TAGGED \<or> (\<exists>v. format attr = FI_CQ_FORMAT_out_of_range v)"
    and "wait_obj attr = FI_WAIT_NONE" and "resources_granted env"
  shows "efa_cq_open env dm attr =
           (- FI_ENOSYS, None,
            [Ev_calloc, Ev_ofi_cq_init,
             Ev_ibv_create_cq_ex
               (if attr_size attr \<noteq> 0 then ucast (attr_size attr) else EFA_DEF_CQ_SIZE),
             Ev_bufpool_create, Ev_bufpool_destroy, Ev_ibv_destroy_cq, Ev_ofi_cq_cleanup, Ev_free])"
  using assms by (auto simp: efa_cq_open_def Let_def resources_granted_def)

lemma open_supported:
  assumes "format attr \<in> {FI_CQ_FORMAT_UNSPEC, FI_CQ_FORMAT_CONTEXT, FI_CQ_FORMAT_MSG, FI_CQ_FORMAT_DATA}"
    and "wait_obj attr = FI_WAIT_NONE" and "resources_granted env"
  shows "\<exists>cq. efa_cq_open env dm attr =
           (0, Some cq,
            [Ev_calloc, Ev_ofi_cq_init,
             Ev_ibv_create_cq_ex
               (if attr_size attr \<noteq> 0 then ucast (attr_size attr) else EFA_DEF_CQ_SIZE),
             Ev_bufpool_create, Ev_spin_init]) \<and>
           cqe (ibv_cq_ex cq) =
             (if attr_size attr \<noteq> 0 then ucast (attr_size attr) else EFA_DEF_CQ_SIZE) \<and>
           (read_entry cq, entry_size cq) =
             (case format attr of
                FI_CQ_FORMAT_MSG \<Rightarrow> (efa_cq_read_msg_entry, sizeof_fi_cq_msg_entry)
              | FI_CQ_FORMAT_DATA \<Rightarrow> (efa_cq_read_data_entry, sizeof_fi_cq_data_entry)
              | _ \<Rightarrow> (efa_cq_read_context_entry, sizeof_fi_cq_entry)) \<and>
           bound_formatter (read_entry cq) \<and> lock cq = Spin_unlocked \<and> domain cq = dm \<and>
           hw_ring (ibv_cq_ex cq) = [] \<and> status (ibv_cq_ex cq) = 0"
  using assms
  by (auto simp: efa_cq_open_def Let_def resources_granted_def bound_formatter_def
      new_ibv_cq_ex_def)

lemma close_success:
  assumes "ibv_destroy_cq_ret env = 0" "ofi_cq_cleanup_ret env = 0"
  shows "fst (efa_cq_close env cq) = 0 \<and>
         calls_since cq (snd (efa_cq_close env cq)) =
           [Ev_bufpool_destroy, Ev_spin_destroy, Ev_ibv_destroy_cq, Ev_ofi_cq_cleanup, Ev_free]"
  using assms
  by (simp add: efa_cq_close_def Let_def calls_since_def ofi_bufpool_destroy_def
      ofi_spin_destroy_def)

lemma readerr_queue:
  "efa_cq_readerr cq entry fl = Some (r, cq', e') \<Longrightarrow> cq' = ofi_spin_unlock (ofi_spin_lock cq)"
  by (auto simp: efa_cq_readerr_def Let_def split: if_splits option.splits)

lemma ex_env_granted: "resources_granted ex_env"
  by (simp add: resources_granted_def ex_env_def)

lemma readfrom_start_fault:
  assumes "hw_ring (ibv_cq_ex cq) = Fault e # rest" and "e \<noteq> 0"
  shows "efa_cq_readfrom cq b count s =
           Some (efa_cq_ibv_poll_error_to_fi_error e,
                 ofi_spin_unlock (snd (ibv_start_poll (ofi_spin_lock cq))), b, s)"
proof -
  have "hw_poll (ibv_cq_ex cq) = (e, (ibv_cq_ex cq)\<lparr>hw_ring := rest\<rparr>)"
    using assms(1) by (simp add: hw_poll_def)
  with assms(2) show ?thesis
    by (simp add: efa_cq_readfrom_def Let_def loop_stop)
qed

lemma spec_entry_op_context: "op_context (spec_entry l c e) = cqe_wr_id c"
  by (cases l) simp_all

lemma bit_push_bit_one64: "bit (push_bit k (1 :: 64 word)) n = (n = k \<and> k < 64)"
  by (auto simp only: bit_push_bit_iff bit_1_iff possible_bit_word len_of_numeral_defs)

lemma FI_VERSION_GE_1_5:
  "FI_VERSION_GE v (FI_VERSION 1 5) = (1 < FI_MAJOR v \<or> FI_MAJOR v = 1 \<and> 5 \<le> FI_MINOR v)"
  by (auto simp: FI_VERSION_GE_def FI_VERSION_def FI_MAJOR_def FI_MINOR_def)

lemma readerr_idle:
  "status (ibv_cq_ex cq) = 0 \<Longrightarrow>
   efa_cq_readerr cq entry fl = Some (- FI_EAGAIN, ofi_spin_unlock (ofi_spin_lock cq), entry)"
  by (simp add: efa_cq_readerr_def Let_def)

lemma readerr_pending:
  assumes "status (ibv_cq_ex cq) \<noteq> 0"
    and "efa_cq_opcode_to_fi_flags (ibv_wc_read_opcode (ibv_cq_ex cq)) = Some f"
  shows "efa_cq_readerr cq entry fl =
           Some (sizeof_fi_cq_err_entry, ofi_spin_unlock (ofi_spin_lock cq),
                 (if FI_VERSION_GE (api_version (domain cq)) (FI_VERSION 1 5)
                  then entry\<lparr>op_context := wr_id (ibv_cq_ex cq), flags := f, err := EIO,
                             prov_errno := status (ibv_cq_ex cq), err_data_size := 0\<rparr>
                  else entry\<lparr>op_context := wr_id (ibv_cq_ex cq), flags := f, err := EIO,
                             prov_errno := status (ibv_cq_ex cq)\<rparr>))"
  using assms by (simp add: efa_cq_readerr_def Let_def efa_cq_api_version_def)

lemma readerr_abort:
  assumes "status (ibv_cq_ex cq) \<noteq> 0"
    and "efa_cq_opcode_to_fi_flags (ibv_wc_read_opcode (ibv_cq_ex cq)) = None"
  shows "efa_cq_readerr cq entry fl = None"
  using assms by (simp add: efa_cq_readerr_def Let_def)

lemma supported_flags:
  "supported_opcode opc \<Longrightarrow> \<exists>f. efa_cq_opcode_to_fi_flags opc = Some f"
  by (auto simp: supported_opcode_def)

lemma unsupported_flags:
  "\<not> supported_opcode opc \<Longrightarrow> efa_cq_opcode_to_fi_flags opc = None"
  by (cases opc) (simp_all add: supported_opcode_def)

lemma ex_pending_cq_sel:
  "status (ibv_cq_ex ex_pending_cq) = 12"
  "wr_id (ibv_cq_ex ex_pending_cq) = 7"
  "ibv_wc_read_opcode (ibv_cq_ex ex_pending_cq) = IBV_WC_SEND"
  "api_version (domain ex_pending_cq) = FI_VERSION 1 9"
  by (simp_all add: ex_pending_cq_def ex_cq_def ex_cqe_def ibv_wc_read_opcode_def ex_domain_def)

lemma FI_VERSION_GE_1_9_1_5: "FI_VERSION_GE (FI_VERSION 1 9) (FI_VERSION 1 5)"
  by (simp add: FI_VERSION_GE_def FI_VERSION_def FI_MAJOR_def FI_MINOR_def)

lemma readerr_ex_pending:
  "efa_cq_readerr ex_pending_cq ex_err_entry fl =
     Some (sizeof_fi_cq_err_entry, ofi_spin_unlock (ofi_spin_lock ex_pending_cq),
           ex_err_entry\<lparr>op_context := 7, flags := FI_SEND OR FI_MSG, err := EIO,
                        prov_errno := 12, err_data_size := 0\<rparr>)"
proof -
  have "efa_cq_opcode_to_fi_flags (ibv_wc_read_opcode (ibv_cq_ex ex_pending_cq)) =
          Some (FI_SEND OR FI_MSG)"
    by (simp add: ex_pending_cq_sel)
  from readerr_pending [OF _ this, of ex_err_entry fl] show ?thesis
    by (simp add: ex_pending_cq_sel FI_VERSION_GE_1_9_1_5)
qed

lemma readerr_ex_pending_again:
  "efa_cq_readerr (ofi_spin_unlock (ofi_spin_lock ex_pending_cq))
       (ex_err_entry\<lparr>op_context := 7, flags := FI_SEND OR FI_MSG, err := EIO,
                     prov_errno := 12, err_data_size := 0\<rparr>) fl =
     Some (sizeof_fi_cq_err_entry,
           ofi_spin_unlock (ofi_spin_lock (ofi_spin_unlock (ofi_spin_lock ex_pending_cq))),
           ex_err_entry\<lparr>op_context := 7, flags := FI_SEND OR FI_MSG, err := EIO,
                        prov_errno := 12, err_data_size := 0\<rparr>)"
proof -
  have "efa_cq_opcode_to_fi_flags
          (ibv_wc_read_opcode (ibv_cq_ex (ofi_spin_unlock (ofi_spin_lock ex_pending_cq)))) =
          Some (FI_SEND OR FI_MSG)"
    by (simp add: ex_pending_cq_sel)
  from readerr_pending [OF _ this, of _ fl] show ?thesis
    by (simp add: ex_pending_cq_sel FI_VERSION_GE_1_9_1_5)
qed

section \<open>The flags of an opcode\<close>

text \<open>
  C6. A Send completion has exactly the flags \<^verbatim>\<open>FI_SEND\<close> and \<^verbatim>\<open>FI_MSG\<close> (bits 11 and
  1), a Receive completion exactly \<^verbatim>\<open>FI_RECV\<close> and \<^verbatim>\<open>FI_MSG\<close> (bits 10 and 1), and the
  \<^verbatim>\<open>assert(0)\<close> branch, which stops the execution, is reached exactly by the opcodes
  other than these two: never under the precondition, always outside it.
\<close>

theorem efa_cq_opcode_to_fi_flags_send_recv:
  "efa_cq_opcode_to_fi_flags IBV_WC_SEND = Some (FI_SEND OR FI_MSG) \<and>
   {n. bit (FI_SEND OR FI_MSG) n} = {11, 1} \<and>
   efa_cq_opcode_to_fi_flags IBV_WC_RECV = Some (FI_RECV OR FI_MSG) \<and>
   {n. bit (FI_RECV OR FI_MSG) n} = {10, 1} \<and>
   (efa_cq_opcode_to_fi_flags opc = None) = (opc \<noteq> IBV_WC_SEND \<and> opc \<noteq> IBV_WC_RECV)"
proof -
  have "{n. bit (FI_SEND OR FI_MSG) n} = {11, 1}"
    unfolding FI_SEND_def FI_MSG_def bit_or_iff bit_push_bit_one64 by auto
  moreover have "{n. bit (FI_RECV OR FI_MSG) n} = {10, 1}"
    unfolding FI_RECV_def FI_MSG_def bit_or_iff bit_push_bit_one64 by auto
  moreover have "(efa_cq_opcode_to_fi_flags opc = None) = (opc \<noteq> IBV_WC_SEND \<and> opc \<noteq> IBV_WC_RECV)"
    by (cases opc) simp_all
  ultimately show ?thesis by simp
qed

section \<open>The translation of the poll code\<close>

text \<open>
  C3. \<^verbatim>\<open>efa_cq_ibv_poll_error_to_fi_error\<close> maps \<^verbatim>\<open>ENOENT\<close> to \<^verbatim>\<open>-FI_EAGAIN\<close>, every
  other positive code to its negation and every nonpositive code to itself; and the read
  returns the code translated so: when the session start fails with a fault code (the
  ring answers it first), the read returns the negation of a positive code other than
  \<^verbatim>\<open>ENOENT\<close>, \<^verbatim>\<open>-FI_EAGAIN\<close> for \<^verbatim>\<open>ENOENT\<close>, and a negative code as it is; and on
  an empty ring, whose session start fails with \<^verbatim>\<open>ENOENT\<close>, it returns \<^verbatim>\<open>-FI_EAGAIN\<close>,
  which is negative, neither 0 nor another fault. This holds for every capacity, and the
  caller's arrays are as they were.
\<close>

theorem efa_cq_ibv_poll_error_translation:
  "efa_cq_ibv_poll_error_to_fi_error ENOENT = - FI_EAGAIN \<and>
   (0 < p \<and> p \<noteq> ENOENT \<longrightarrow> efa_cq_ibv_poll_error_to_fi_error p = - p) \<and>
   (e \<le> 0 \<longrightarrow> efa_cq_ibv_poll_error_to_fi_error e = e) \<and>
   (hw_ring (ibv_cq_ex cq) = [] \<longrightarrow>
      (\<exists>cq'. efa_cq_readfrom cq b count s = Some (- FI_EAGAIN, cq', b, s)) \<and>
      - FI_EAGAIN < 0) \<and>
   (hw_ring (ibv_cq_ex cq) = Fault f # rest \<and> 0 < f \<and> f \<noteq> ENOENT \<longrightarrow>
      (\<exists>cq'. efa_cq_readfrom cq b count s = Some (- f, cq', b, s))) \<and>
   (hw_ring (ibv_cq_ex cq) = Fault f # rest \<and> f = ENOENT \<longrightarrow>
      (\<exists>cq'. efa_cq_readfrom cq b count s = Some (- FI_EAGAIN, cq', b, s))) \<and>
   (hw_ring (ibv_cq_ex cq) = Fault f # rest \<and> f < 0 \<longrightarrow>
      (\<exists>cq'. efa_cq_readfrom cq b count s = Some (f, cq', b, s)))"
proof -
  have tr: "efa_cq_ibv_poll_error_to_fi_error ENOENT = - FI_EAGAIN"
    "0 < p \<and> p \<noteq> ENOENT \<longrightarrow> efa_cq_ibv_poll_error_to_fi_error p = - p"
    "e \<le> 0 \<longrightarrow> efa_cq_ibv_poll_error_to_fi_error e = e"
    by (auto simp: efa_cq_ibv_poll_error_to_fi_error_def ENOENT_def)
  have empty: "hw_ring (ibv_cq_ex cq) = [] \<longrightarrow>
      (\<exists>cq'. efa_cq_readfrom cq b count s = Some (- FI_EAGAIN, cq', b, s)) \<and> - FI_EAGAIN < 0"
    using readfrom_empty [of cq b count s] by (auto simp: FI_EAGAIN_def)
  have fault: "\<exists>cq'. efa_cq_readfrom cq b count s =
                 Some (efa_cq_ibv_poll_error_to_fi_error f, cq', b, s)"
    if "hw_ring (ibv_cq_ex cq) = Fault f # rest" "f \<noteq> 0"
    using readfrom_start_fault [OF that, of b count s] by blast
  have pos: "hw_ring (ibv_cq_ex cq) = Fault f # rest \<and> 0 < f \<and> f \<noteq> ENOENT \<longrightarrow>
      (\<exists>cq'. efa_cq_readfrom cq b count s = Some (- f, cq', b, s))"
    using fault by (auto simp: efa_cq_ibv_poll_error_to_fi_error_def)
  have noent: "hw_ring (ibv_cq_ex cq) = Fault f # rest \<and> f = ENOENT \<longrightarrow>
      (\<exists>cq'. efa_cq_readfrom cq b count s = Some (- FI_EAGAIN, cq', b, s))"
    using fault by (auto simp: efa_cq_ibv_poll_error_to_fi_error_def ENOENT_def)
  have neg: "hw_ring (ibv_cq_ex cq) = Fault f # rest \<and> f < 0 \<longrightarrow>
      (\<exists>cq'. efa_cq_readfrom cq b count s = Some (f, cq', b, s))"
    using fault by (auto simp: efa_cq_ibv_poll_error_to_fi_error_def ENOENT_def)
  from tr empty pos noent neg show ?thesis by blast
qed

theorem efa_cq_ibv_poll_error_translation_witness:
  "efa_cq_ibv_poll_error_to_fi_error ENOENT = - FI_EAGAIN \<and>
   efa_cq_ibv_poll_error_to_fi_error 22 = - 22 \<and>
   efa_cq_ibv_poll_error_to_fi_error (- 259) = - 259 \<and>
   (\<exists>cq'. efa_cq_readfrom (ex_cq efa_cq_read_msg_entry []) ex_buf 4 None =
            Some (- FI_EAGAIN, cq', ex_buf, None)) \<and>
   (\<exists>cq'. efa_cq_readfrom (ex_cq efa_cq_read_msg_entry [Fault 5, Cqe (ex_cqe 7 IBV_WC_SEND 0)])
            ex_buf 4 None = Some (- 5, cq', ex_buf, None)) \<and>
   (\<exists>cq'. efa_cq_readfrom (ex_cq efa_cq_read_msg_entry [Fault ENOENT]) ex_buf 4 None =
            Some (- FI_EAGAIN, cq', ex_buf, None)) \<and>
   (\<exists>cq'. efa_cq_readfrom (ex_cq efa_cq_read_msg_entry [Fault (- 7)]) ex_buf 4 None =
            Some (- 7, cq', ex_buf, None))"
proof -
  from efa_cq_ibv_poll_error_translation
    [of 22 "- 259" "ex_cq efa_cq_read_msg_entry []" ex_buf 4 None]
  have 1: "efa_cq_ibv_poll_error_to_fi_error ENOENT = - FI_EAGAIN \<and>
           efa_cq_ibv_poll_error_to_fi_error 22 = - 22 \<and>
           efa_cq_ibv_poll_error_to_fi_error (- 259) = - 259 \<and>
           (\<exists>cq'. efa_cq_readfrom (ex_cq efa_cq_read_msg_entry []) ex_buf 4 None =
                    Some (- FI_EAGAIN, cq', ex_buf, None))"
    by (simp add: ENOENT_def ex_cq_sel)
  from efa_cq_ibv_poll_error_translation
    [where cq = "ex_cq efa_cq_read_msg_entry [Fault 5, Cqe (ex_cqe 7 IBV_WC_SEND 0)]"
       and f = 5 and rest = "[Cqe (ex_cqe 7 IBV_WC_SEND 0)]" and b = ex_buf and count = 4
       and s = None]
  have 2: "\<exists>cq'. efa_cq_readfrom
                   (ex_cq efa_cq_read_msg_entry [Fault 5, Cqe (ex_cqe 7 IBV_WC_SEND 0)])
                   ex_buf 4 None = Some (- 5, cq', ex_buf, None)"
    by (simp add: ENOENT_def ex_cq_sel)
  from efa_cq_ibv_poll_error_translation
    [where cq = "ex_cq efa_cq_read_msg_entry [Fault ENOENT]" and f = ENOENT and rest = "[]"
       and b = ex_buf and count = 4 and s = None]
  have 3: "\<exists>cq'. efa_cq_readfrom (ex_cq efa_cq_read_msg_entry [Fault ENOENT]) ex_buf 4 None =
                   Some (- FI_EAGAIN, cq', ex_buf, None)"
    by (simp add: ex_cq_sel)
  from efa_cq_ibv_poll_error_translation
    [where cq = "ex_cq efa_cq_read_msg_entry [Fault (- 7)]" and f = "- 7" and rest = "[]"
       and b = ex_buf and count = 4 and s = None]
  have 4: "\<exists>cq'. efa_cq_readfrom (ex_cq efa_cq_read_msg_entry [Fault (- 7)]) ex_buf 4 None =
                   Some (- 7, cq', ex_buf, None)"
    by (simp add: ex_cq_sel)
  from 1 2 3 4 show ?thesis by blast
qed

section \<open>The error record\<close>

text \<open>
  C4. \<^verbatim>\<open>efa_cq_readerr\<close> returns \<^verbatim>\<open>-FI_EAGAIN\<close> when the status of the ring is zero, and
  then the caller's record is returned as it was. When the status is not zero and the
  pending opcode is Send or Receive, it returns the size of the record, which is not
  \<^verbatim>\<open>-FI_EAGAIN\<close>, and the record holds the pending work-request identifier as operation
  context, the flags of the pending opcode, \<^verbatim>\<open>EIO\<close>, the status as provider code, and
  an \<^verbatim>\<open>err_data_size\<close> of zero exactly when the version of the fabric is at least 1.5
  (otherwise the field is as it was); the other fields are as they were. With any other
  pending opcode the flag derivation aborts the call.
\<close>

theorem efa_cq_readerr_record:
  "(status (ibv_cq_ex cq) = 0 \<longrightarrow>
      efa_cq_readerr cq entry fl = Some (- FI_EAGAIN, ofi_spin_unlock (ofi_spin_lock cq), entry)) \<and>
   (status (ibv_cq_ex cq) \<noteq> 0 \<and> supported_opcode (ibv_wc_read_opcode (ibv_cq_ex cq)) \<longrightarrow>
      (\<exists>e. efa_cq_readerr cq entry fl =
              Some (sizeof_fi_cq_err_entry, ofi_spin_unlock (ofi_spin_lock cq), e) \<and>
            sizeof_fi_cq_err_entry \<noteq> - FI_EAGAIN \<and>
            op_context e = wr_id (ibv_cq_ex cq) \<and>
            Some (flags e) = efa_cq_opcode_to_fi_flags (ibv_wc_read_opcode (ibv_cq_ex cq)) \<and>
            err e = EIO \<and>
            prov_errno e = status (ibv_cq_ex cq) \<and>
            err_data_size e =
              (if FI_VERSION_GE (api_version (domain cq)) (FI_VERSION 1 5) then 0
               else err_data_size entry) \<and>
            len e = len entry \<and> buf e = buf entry \<and> data e = data entry \<and>
            tag e = tag entry \<and> olen e = olen entry \<and> err_data e = err_data entry)) \<and>
   (status (ibv_cq_ex cq) \<noteq> 0 \<and> \<not> supported_opcode (ibv_wc_read_opcode (ibv_cq_ex cq)) \<longrightarrow>
      efa_cq_readerr cq entry fl = None)"
proof (intro conjI impI)
  assume "status (ibv_cq_ex cq) = 0"
  then show "efa_cq_readerr cq entry fl =
               Some (- FI_EAGAIN, ofi_spin_unlock (ofi_spin_lock cq), entry)"
    by (rule readerr_idle)
next
  assume a: "status (ibv_cq_ex cq) \<noteq> 0 \<and> supported_opcode (ibv_wc_read_opcode (ibv_cq_ex cq))"
  then obtain f where f: "efa_cq_opcode_to_fi_flags (ibv_wc_read_opcode (ibv_cq_ex cq)) = Some f"
    using supported_flags by blast
  show "\<exists>e. efa_cq_readerr cq entry fl =
              Some (sizeof_fi_cq_err_entry, ofi_spin_unlock (ofi_spin_lock cq), e) \<and>
            sizeof_fi_cq_err_entry \<noteq> - FI_EAGAIN \<and>
            op_context e = wr_id (ibv_cq_ex cq) \<and>
            Some (flags e) = efa_cq_opcode_to_fi_flags (ibv_wc_read_opcode (ibv_cq_ex cq)) \<and>
            err e = EIO \<and>
            prov_errno e = status (ibv_cq_ex cq) \<and>
            err_data_size e =
              (if FI_VERSION_GE (api_version (domain cq)) (FI_VERSION 1 5) then 0
               else err_data_size entry) \<and>
            len e = len entry \<and> buf e = buf entry \<and> data e = data entry \<and>
            tag e = tag entry \<and> olen e = olen entry \<and> err_data e = err_data entry"
    using a f readerr_pending [of cq f entry fl]
    by (simp add: sizeof_fi_cq_err_entry_def FI_EAGAIN_def)
next
  assume "status (ibv_cq_ex cq) \<noteq> 0 \<and> \<not> supported_opcode (ibv_wc_read_opcode (ibv_cq_ex cq))"
  then show "efa_cq_readerr cq entry fl = None"
    using unsupported_flags readerr_abort by blast
qed

theorem efa_cq_readerr_record_witness:
  "efa_cq_readerr (ex_cq efa_cq_read_msg_entry []) ex_err_entry 0 =
     Some (- FI_EAGAIN, ofi_spin_unlock (ofi_spin_lock (ex_cq efa_cq_read_msg_entry [])), ex_err_entry) \<and>
   (\<exists>e. efa_cq_readerr ex_pending_cq ex_err_entry 0 =
           Some (sizeof_fi_cq_err_entry, ofi_spin_unlock (ofi_spin_lock ex_pending_cq), e) \<and>
         op_context e = 7 \<and> flags e = FI_SEND OR FI_MSG \<and> err e = EIO \<and> prov_errno e = 12 \<and>
         err_data_size e = 0 \<and> len e = 1)"
  using efa_cq_readerr_record [of "ex_cq efa_cq_read_msg_entry []" ex_err_entry 0]
    efa_cq_readerr_record [of ex_pending_cq ex_err_entry 0]
  by (auto simp: ex_pending_cq_sel FI_VERSION_GE_1_9_1_5 supported_opcode_def ex_err_entry_def
      ex_cq_def new_ibv_cq_ex_def)

text \<open>
  C5, as stated: after \<^verbatim>\<open>efa_cq_readerr\<close> has returned a record, a second call returns
  \<^verbatim>\<open>-FI_EAGAIN\<close>. On the queue whose cursor is on a failed Send completion the second
  call returns the size of the record and the same record again.
\<close>

theorem efa_cq_readerr_twice_counterexample:
  "efa_cq_readerr ex_pending_cq ex_err_entry 0 =
     Some (sizeof_fi_cq_err_entry, ofi_spin_unlock (ofi_spin_lock ex_pending_cq),
           ex_err_entry\<lparr>op_context := 7, flags := FI_SEND OR FI_MSG, err := EIO,
                        prov_errno := 12, err_data_size := 0\<rparr>) \<and>
   efa_cq_readerr (ofi_spin_unlock (ofi_spin_lock ex_pending_cq))
       (ex_err_entry\<lparr>op_context := 7, flags := FI_SEND OR FI_MSG, err := EIO,
                     prov_errno := 12, err_data_size := 0\<rparr>) 0 =
     Some (sizeof_fi_cq_err_entry,
           ofi_spin_unlock (ofi_spin_lock (ofi_spin_unlock (ofi_spin_lock ex_pending_cq))),
           ex_err_entry\<lparr>op_context := 7, flags := FI_SEND OR FI_MSG, err := EIO,
                        prov_errno := 12, err_data_size := 0\<rparr>) \<and>
   sizeof_fi_cq_err_entry \<noteq> - FI_EAGAIN"
  using readerr_ex_pending [of 0] readerr_ex_pending_again [of 0]
  by (simp add: sizeof_fi_cq_err_entry_def FI_EAGAIN_def)

text \<open>
  C5, amended. \<^verbatim>\<open>efa_cq_readerr\<close> does not clear the pending error: when it has
  returned a record (a value other than \<^verbatim>\<open>-FI_EAGAIN\<close>), the ring handle is as it was,
  its status is still not zero, and a call on the resulting queue and record returns
  the same size and the same record again.
\<close>

theorem efa_cq_readerr_keeps_pending:
  assumes "efa_cq_readerr cq entry fl = Some (r, cq', e')" and "r \<noteq> - FI_EAGAIN"
  shows "r = sizeof_fi_cq_err_entry \<and>
         ibv_cq_ex cq' = ibv_cq_ex cq \<and> status (ibv_cq_ex cq') \<noteq> 0 \<and>
         efa_cq_readerr cq' e' fl' = Some (r, ofi_spin_unlock (ofi_spin_lock cq'), e')"
proof -
  from assms have st: "status (ibv_cq_ex cq) \<noteq> 0"
    by (auto simp: readerr_idle)
  then obtain f where f: "efa_cq_opcode_to_fi_flags (ibv_wc_read_opcode (ibv_cq_ex cq)) = Some f"
    using assms(1) readerr_abort [of cq entry fl] by (cases "efa_cq_opcode_to_fi_flags (ibv_wc_read_opcode (ibv_cq_ex cq))") auto
  from readerr_pending [OF st f, of entry fl] assms(1)
  have r: "r = sizeof_fi_cq_err_entry" and cq': "cq' = ofi_spin_unlock (ofi_spin_lock cq)"
    and e': "e' = (if FI_VERSION_GE (api_version (domain cq)) (FI_VERSION 1 5)
                  then entry\<lparr>op_context := wr_id (ibv_cq_ex cq), flags := f, err := EIO,
                             prov_errno := status (ibv_cq_ex cq), err_data_size := 0\<rparr>
                  else entry\<lparr>op_context := wr_id (ibv_cq_ex cq), flags := f, err := EIO,
                             prov_errno := status (ibv_cq_ex cq)\<rparr>)"
    by simp_all
  have st': "status (ibv_cq_ex cq') \<noteq> 0" and f': "efa_cq_opcode_to_fi_flags (ibv_wc_read_opcode (ibv_cq_ex cq')) = Some f"
    using st f cq' by simp_all
  show ?thesis
    using readerr_pending [OF st' f', of e' fl'] r cq' e' st by simp
qed

theorem efa_cq_readerr_keeps_pending_witness:
  "efa_cq_readerr ex_pending_cq ex_err_entry 0 =
     Some (sizeof_fi_cq_err_entry, ofi_spin_unlock (ofi_spin_lock ex_pending_cq),
           ex_err_entry\<lparr>op_context := 7, flags := FI_SEND OR FI_MSG, err := EIO,
                        prov_errno := 12, err_data_size := 0\<rparr>) \<and>
   sizeof_fi_cq_err_entry \<noteq> - FI_EAGAIN \<and>
   status (ibv_cq_ex (ofi_spin_unlock (ofi_spin_lock ex_pending_cq))) = 12 \<and>
   efa_cq_readerr (ofi_spin_unlock (ofi_spin_lock ex_pending_cq))
       (ex_err_entry\<lparr>op_context := 7, flags := FI_SEND OR FI_MSG, err := EIO,
                     prov_errno := 12, err_data_size := 0\<rparr>) 5 =
     Some (sizeof_fi_cq_err_entry,
           ofi_spin_unlock (ofi_spin_lock (ofi_spin_unlock (ofi_spin_lock ex_pending_cq))),
           ex_err_entry\<lparr>op_context := 7, flags := FI_SEND OR FI_MSG, err := EIO,
                        prov_errno := 12, err_data_size := 0\<rparr>)"
proof -
  have ne: "sizeof_fi_cq_err_entry \<noteq> - FI_EAGAIN"
    by (simp add: sizeof_fi_cq_err_entry_def FI_EAGAIN_def)
  from efa_cq_readerr_keeps_pending [OF readerr_ex_pending [of 0] ne, of 5]
  show ?thesis
    using readerr_ex_pending [of 0] ne by (simp add: ex_pending_cq_sel)
qed

section \<open>Reading from a ring\<close>

text \<open>
  C1, as stated: with N ready completions the read returns min(N, C), and a read of
  capacity 0 returns 0 without taking an entry from the ring. On the empty ring the read
  returns \<^verbatim>\<open>-FI_EAGAIN\<close>, for the capacity 1 and for the capacity 0; and on a ring of one
  ready completion the read of capacity 0 returns 0 and leaves the ring empty: the
  session it starts has moved the cursor onto the completion.
\<close>

theorem efa_cq_readfrom_min_counterexample:
  "efa_cq_readfrom (ex_cq efa_cq_read_msg_entry []) ex_buf 1 None =
     Some (- FI_EAGAIN,
           ofi_spin_unlock (snd (ibv_start_poll (ofi_spin_lock (ex_cq efa_cq_read_msg_entry [])))),
           ex_buf, None) \<and>
   efa_cq_readfrom (ex_cq efa_cq_read_msg_entry []) ex_buf 0 None =
     Some (- FI_EAGAIN,
           ofi_spin_unlock (snd (ibv_start_poll (ofi_spin_lock (ex_cq efa_cq_read_msg_entry [])))),
           ex_buf, None) \<and>
   - FI_EAGAIN \<noteq> int (min 0 1) \<and> - FI_EAGAIN \<noteq> 0 \<and>
   efa_cq_readfrom (ex_cq efa_cq_read_msg_entry [Cqe (ex_cqe 7 IBV_WC_SEND 0)]) ex_buf 0 None =
     Some (0,
           ofi_spin_unlock (ibv_end_poll (snd (ibv_start_poll (ofi_spin_lock
             (ex_cq efa_cq_read_msg_entry [Cqe (ex_cqe 7 IBV_WC_SEND 0)]))))),
           ex_buf, None) \<and>
   hw_ring (ibv_cq_ex (ofi_spin_unlock (ibv_end_poll (snd (ibv_start_poll (ofi_spin_lock
             (ex_cq efa_cq_read_msg_entry [Cqe (ex_cqe 7 IBV_WC_SEND 0)]))))))) = []"
proof -
  have e: "hw_ring (ibv_cq_ex (ex_cq efa_cq_read_msg_entry [])) = []"
    by (simp add: ex_cq_sel)
  have z: "hw_ring (ibv_cq_ex (ex_cq efa_cq_read_msg_entry [Cqe (ex_cqe 7 IBV_WC_SEND 0)])) =
             Cqe (ex_cqe 7 IBV_WC_SEND 0) # []"
    by (simp add: ex_cq_sel)
  show ?thesis
    using readfrom_empty [OF e, of ex_buf 1 None] readfrom_empty [OF e, of ex_buf 0 None]
      readfrom_zero [OF z, of ex_buf None]
    by (simp add: FI_EAGAIN_def hw_poll_Cqe [OF z])
qed

text \<open>
  C1, amended. On a ring of exactly N ready completions with supported opcodes
  (N below \<open>2 ^ 31\<close>), for a queue bound to the layout \<open>l\<close> and for every capacity C, the
  read returns \<^verbatim>\<open>-FI_EAGAIN\<close> when N is 0 and min(N, C) otherwise, so 0 when C is 0; for
  every \<open>i\<close> below min(N, C) the slot \<open>i\<close> of the array is the entry that the
  specification gives the layout for the \<open>i\<close>-th completion, over the previous content
  of the slot, and its operation context is the work-request identifier of that
  completion; every other slot is as it was.
\<close>

theorem efa_cq_readfrom_ready_ring:
  assumes "read_entry cq = formatter_of_layout l"
    and "hw_ring (ibv_cq_ex cq) = map Cqe cs"
    and "\<forall>x\<in>set cs. cqe_status x = 0 \<and> supported_opcode (cqe_opcode x)"
    and "length cs < 2 ^ 31"
  shows "\<exists>cq' b' s'.
           efa_cq_readfrom cq b count s =
             Some (if cs = [] then - FI_EAGAIN else int (min (length cs) count), cq', b', s') \<and>
           (\<forall>i<min (length cs) count.
              b' (int i) = spec_entry l (cs ! i) (b (int i)) \<and>
              op_context (b' (int i)) = cqe_wr_id (cs ! i)) \<and>
           (\<forall>j. j < 0 \<or> int (min (length cs) count) \<le> j \<longrightarrow> b' j = b j)"
proof -
  let ?b' = "fill_slots l (take count cs) 0 b"
  from readfrom_all_ready [OF assms, of b count s] obtain cq' s' where
    r: "efa_cq_readfrom cq b count s =
          Some (if cs = [] then - FI_EAGAIN else int (min (length cs) count), cq', ?b', s')"
    by blast
  have "?b' (int i) = spec_entry l (cs ! i) (b (int i)) \<and>
        op_context (?b' (int i)) = cqe_wr_id (cs ! i)"
    if "i < min (length cs) count" for i
    using that fill_slots_inside [of i "take count cs" l 0 b]
    by (simp add: spec_entry_op_context)
  moreover have "?b' j = b j" if "j < 0 \<or> int (min (length cs) count) \<le> j" for j
    using that fill_slots_outside [of j 0 "take count cs" l b] by auto
  ultimately show ?thesis using r by blast
qed

theorem efa_cq_readfrom_ready_ring_witness:
  "(\<exists>cq' b' s'.
     efa_cq_readfrom
       (ex_cq efa_cq_read_msg_entry
          [Cqe (ex_cqe 7 IBV_WC_SEND 0), Cqe (ex_cqe 8 IBV_WC_RECV 0), Cqe (ex_cqe 9 IBV_WC_SEND 0)])
       ex_buf 2 None = Some (2, cq', b', s') \<and>
     b' 0 = \<lparr>op_context = 7, flags = FI_SEND OR FI_MSG, len = 64, buf = 0, data = 0\<rparr> \<and>
     b' 1 = \<lparr>op_context = 8, flags = FI_RECV OR FI_MSG, len = 64, buf = 0, data = 0\<rparr> \<and>
     b' 2 = ex_buf 2) \<and>
   (\<exists>cq' b' s'.
     efa_cq_readfrom
       (ex_cq efa_cq_read_context_entry
          [Cqe (ex_cqe 7 IBV_WC_SEND 0), Cqe (ex_cqe 8 IBV_WC_RECV 0), Cqe (ex_cqe 9 IBV_WC_SEND 0)])
       ex_buf 5 None = Some (3, cq', b', s') \<and>
     b' 0 = \<lparr>op_context = 7, flags = 0, len = 0, buf = 0, data = 0\<rparr> \<and>
     b' 2 = \<lparr>op_context = 9, flags = 0, len = 0, buf = 0, data = 0\<rparr> \<and>
     b' 3 = ex_buf 3)"
proof -
  let ?cs = "[ex_cqe 7 IBV_WC_SEND 0, ex_cqe 8 IBV_WC_RECV 0, ex_cqe 9 IBV_WC_SEND 0]"
  let ?m = "ex_cq efa_cq_read_msg_entry (map Cqe ?cs)"
  let ?c = "ex_cq efa_cq_read_context_entry (map Cqe ?cs)"
  have h1: "read_entry ?m = formatter_of_layout Message"
    "read_entry ?c = formatter_of_layout ContextOnly"
    by (simp_all add: ex_cq_sel)
  have h2: "hw_ring (ibv_cq_ex ?m) = map Cqe ?cs" "hw_ring (ibv_cq_ex ?c) = map Cqe ?cs"
    by (simp_all add: ex_cq_sel)
  have h3: "\<forall>x\<in>set ?cs. cqe_status x = 0 \<and> supported_opcode (cqe_opcode x)"
    by (simp add: ex_cqe_sel supported_opcode_def)
  have h4: "length ?cs < 2 ^ 31" by simp
  from efa_cq_readfrom_ready_ring [OF h1(1) h2(1) h3 h4, of ex_buf 2 None]
  obtain cq' b' s' where
    r: "efa_cq_readfrom ?m ex_buf 2 None = Some (2, cq', b', s')"
    and inside: "\<forall>i<2. b' (int i) = spec_entry Message (?cs ! i) (ex_buf (int i)) \<and>
                       op_context (b' (int i)) = cqe_wr_id (?cs ! i)"
    and outside: "\<forall>j. j < 0 \<or> 2 \<le> j \<longrightarrow> b' j = ex_buf j"
    by auto
  from inside [rule_format, of 0]
  have b0: "b' 0 = \<lparr>op_context = 7, flags = FI_SEND OR FI_MSG, len = 64, buf = 0, data = 0\<rparr>"
    by (simp add: ex_cqe_sel ex_buf_def)
  from inside [rule_format, of 1]
  have b1: "b' 1 = \<lparr>op_context = 8, flags = FI_RECV OR FI_MSG, len = 64, buf = 0, data = 0\<rparr>"
    by (simp add: ex_cqe_sel ex_buf_def)
  from outside have b2: "b' 2 = ex_buf 2" by simp
  from r b0 b1 b2 have first: "\<exists>cq' b' s'.
     efa_cq_readfrom ?m ex_buf 2 None = Some (2, cq', b', s') \<and>
     b' 0 = \<lparr>op_context = 7, flags = FI_SEND OR FI_MSG, len = 64, buf = 0, data = 0\<rparr> \<and>
     b' 1 = \<lparr>op_context = 8, flags = FI_RECV OR FI_MSG, len = 64, buf = 0, data = 0\<rparr> \<and>
     b' 2 = ex_buf 2"
    by blast
  from efa_cq_readfrom_ready_ring [OF h1(2) h2(2) h3 h4, of ex_buf 5 None]
  obtain cq' b' s' where
    r: "efa_cq_readfrom ?c ex_buf 5 None = Some (3, cq', b', s')"
    and inside: "\<forall>i<3. b' (int i) = spec_entry ContextOnly (?cs ! i) (ex_buf (int i)) \<and>
                       op_context (b' (int i)) = cqe_wr_id (?cs ! i)"
    and outside: "\<forall>j. j < 0 \<or> 3 \<le> j \<longrightarrow> b' j = ex_buf j"
    by auto
  from inside [rule_format, of 0]
  have b0: "b' 0 = \<lparr>op_context = 7, flags = 0, len = 0, buf = 0, data = 0\<rparr>"
    by (simp add: ex_cqe_sel ex_buf_def)
  from inside [rule_format, of 2]
  have b2: "b' 2 = \<lparr>op_context = 9, flags = 0, len = 0, buf = 0, data = 0\<rparr>"
    by (simp add: ex_cqe_sel ex_buf_def)
  from outside have b3: "b' 3 = ex_buf 3" by simp
  from r b0 b2 b3 have second: "\<exists>cq' b' s'.
     efa_cq_readfrom ?c ex_buf 5 None = Some (3, cq', b', s') \<and>
     b' 0 = \<lparr>op_context = 7, flags = 0, len = 0, buf = 0, data = 0\<rparr> \<and>
     b' 2 = \<lparr>op_context = 9, flags = 0, len = 0, buf = 0, data = 0\<rparr> \<and>
     b' 3 = ex_buf 3"
    by blast
  from first second show ?thesis by simp
qed

text \<open>
  C2. On a ring whose first k completions are ready (with supported opcodes) and whose
  next completion is in error, with k below the capacity, for a queue bound to the
  layout \<open>l\<close>, the read returns k when k is positive and \<^verbatim>\<open>-FI_EAVAIL\<close> when k is 0;
  for every \<open>i\<close> below k the slot \<open>i\<close> of the array is the entry that the specification
  gives the layout for the \<open>i\<close>-th completion, over the previous content of the slot,
  and its operation context is the work-request identifier of that completion; every
  other slot is as it was; and \<^verbatim>\<open>efa_cq_readerr\<close> on the queue the read returns yields
  a record whose operation context is the work-request identifier of the completion in
  error, and whose provider code is its status.
\<close>

theorem efa_cq_readfrom_stops_at_errored:
  assumes "read_entry cq = formatter_of_layout l"
    and "hw_ring (ibv_cq_ex cq) = map Cqe cs @ Cqe bad # rest"
    and "\<forall>x\<in>set cs. cqe_status x = 0 \<and> supported_opcode (cqe_opcode x)"
    and "cqe_status bad \<noteq> 0" and "supported_opcode (cqe_opcode bad)"
    and "length cs < count" and "length cs < 2 ^ 31"
  shows "\<exists>cq' b' s'.
           efa_cq_readfrom cq b count s =
             Some (if length cs = 0 then - FI_EAVAIL else int (length cs), cq', b', s') \<and>
           (\<forall>i<length cs.
              b' (int i) = spec_entry l (cs ! i) (b (int i)) \<and>
              op_context (b' (int i)) = cqe_wr_id (cs ! i)) \<and>
           (\<forall>j. j < 0 \<or> int (length cs) \<le> j \<longrightarrow> b' j = b j) \<and>
           (\<exists>cq'' e. efa_cq_readerr cq' entry fl = Some (sizeof_fi_cq_err_entry, cq'', e) \<and>
                     op_context e = cqe_wr_id bad \<and> prov_errno e = cqe_status bad)"
proof -
  let ?b' = "fill_slots l cs 0 b"
  from readfrom_until_error [OF assms(1-4,6,7), of b s] obtain cq' s' where
    r: "efa_cq_readfrom cq b count s =
          Some (if cs = [] then - FI_EAVAIL else int (length cs), cq', ?b', s')"
    and ex: "ibv_cq_ex cq' = cursor_on (ibv_cq_ex cq) bad rest"
    by blast
  have inside: "?b' (int i) = spec_entry l (cs ! i) (b (int i)) \<and>
                op_context (?b' (int i)) = cqe_wr_id (cs ! i)"
    if "i < length cs" for i
    using that fill_slots_inside [of i cs l 0 b] by (simp add: spec_entry_op_context)
  have outside: "?b' j = b j" if "j < 0 \<or> int (length cs) \<le> j" for j
    using that fill_slots_outside [of j 0 cs l b] by auto
  from assms(5) obtain f where
    f: "efa_cq_opcode_to_fi_flags (ibv_wc_read_opcode (ibv_cq_ex cq')) = Some f"
    using supported_flags [of "cqe_opcode bad"] by (auto simp: ex ibv_wc_read_opcode_def)
  have st: "status (ibv_cq_ex cq') \<noteq> 0"
    using assms(4) by (simp add: ex)
  have "\<exists>cq'' e. efa_cq_readerr cq' entry fl = Some (sizeof_fi_cq_err_entry, cq'', e) \<and>
                 op_context e = cqe_wr_id bad \<and> prov_errno e = cqe_status bad"
    using readerr_pending [OF st f, of entry fl] by (simp add: ex)
  with r inside outside show ?thesis
    by (intro exI [of _ cq'] exI [of _ ?b'] exI [of _ s']) (simp add: spec_entry_op_context)
qed

theorem efa_cq_readfrom_stops_at_errored_witness:
  "(\<exists>cq' b' s'.
     efa_cq_readfrom
       (ex_cq efa_cq_read_data_entry
          [Cqe (ex_cqe 7 IBV_WC_SEND 0), Cqe (ex_cqe 8 IBV_WC_RECV 12), Cqe (ex_cqe 9 IBV_WC_SEND 0)])
       (\<lambda>i. \<lparr>op_context = 1, flags = 1, len = 1, buf = 1, data = 1\<rparr>) 4 None =
       Some (1, cq', b', s') \<and>
     b' 0 = \<lparr>op_context = 7, flags = FI_SEND OR FI_MSG, len = 64, buf = 1, data = 0\<rparr> \<and>
     b' 1 = \<lparr>op_context = 1, flags = 1, len = 1, buf = 1, data = 1\<rparr> \<and>
     (\<exists>cq'' e. efa_cq_readerr cq' ex_err_entry 0 = Some (sizeof_fi_cq_err_entry, cq'', e) \<and>
               op_context e = 8 \<and> prov_errno e = 12)) \<and>
   (\<exists>cq' b' s'.
     efa_cq_readfrom
       (ex_cq efa_cq_read_msg_entry [Cqe (ex_cqe 8 IBV_WC_RECV 12), Cqe (ex_cqe 9 IBV_WC_SEND 0)])
       ex_buf 4 None = Some (- FI_EAVAIL, cq', b', s') \<and>
     b' 0 = ex_buf 0 \<and>
     (\<exists>cq'' e. efa_cq_readerr cq' ex_err_entry 0 = Some (sizeof_fi_cq_err_entry, cq'', e) \<and>
               op_context e = 8 \<and> prov_errno e = 12))"
proof -
  let ?bad = "ex_cqe 8 IBV_WC_RECV 12"
  let ?rest = "[Cqe (ex_cqe 9 IBV_WC_SEND 0)]"
  let ?cs = "[ex_cqe 7 IBV_WC_SEND 0]"
  let ?ones = "\<lambda>i :: int. \<lparr>op_context = 1, flags = 1, len = 1, buf = 1, data = 1 :: 64 word\<rparr>"
  let ?cq = "ex_cq efa_cq_read_data_entry (map Cqe ?cs @ Cqe ?bad # ?rest)"
  let ?cqe = "ex_cq efa_cq_read_msg_entry (map Cqe [] @ Cqe ?bad # ?rest)"
  have h1: "read_entry ?cq = formatter_of_layout MessageAndData"
    "read_entry ?cqe = formatter_of_layout Message"
    by (simp_all add: ex_cq_sel)
  have h2: "hw_ring (ibv_cq_ex ?cq) = map Cqe ?cs @ Cqe ?bad # ?rest"
    "hw_ring (ibv_cq_ex ?cqe) = map Cqe [] @ Cqe ?bad # ?rest"
    by (simp_all add: ex_cq_sel)
  have h3: "\<forall>x\<in>set ?cs. cqe_status x = 0 \<and> supported_opcode (cqe_opcode x)"
    "\<forall>x\<in>set ([] :: hw_cqe list). cqe_status x = 0 \<and> supported_opcode (cqe_opcode x)"
    by (simp_all add: ex_cqe_sel supported_opcode_def)
  have h4: "cqe_status ?bad \<noteq> 0" and h5: "supported_opcode (cqe_opcode ?bad)"
    by (simp_all add: ex_cqe_sel supported_opcode_def)
  have h6: "length ?cs < 4" "length ([] :: hw_cqe list) < 4" by simp_all
  have h7: "length ?cs < 2 ^ 31" "length ([] :: hw_cqe list) < 2 ^ 31" by simp_all
  from efa_cq_readfrom_stops_at_errored
    [OF h1(1) h2(1) h3(1) h4 h5 h6(1) h7(1), of ?ones None ex_err_entry 0]
  have "\<exists>cq' b' s'.
     efa_cq_readfrom ?cq ?ones 4 None = Some (1, cq', b', s') \<and>
     (\<forall>i<1. b' (int i) = spec_entry MessageAndData (?cs ! i) (?ones (int i)) \<and>
             op_context (b' (int i)) = cqe_wr_id (?cs ! i)) \<and>
     (\<forall>j. j < 0 \<or> 1 \<le> j \<longrightarrow> b' j = ?ones j) \<and>
     (\<exists>cq'' e. efa_cq_readerr cq' ex_err_entry 0 = Some (sizeof_fi_cq_err_entry, cq'', e) \<and>
               op_context e = 8 \<and> prov_errno e = 12)"
    by (simp add: ex_cqe_sel)
  then obtain cq' b' s' cq'' e where
    r: "efa_cq_readfrom ?cq ?ones 4 None = Some (1, cq', b', s')"
    and inside: "\<forall>i<1. b' (int i) = spec_entry MessageAndData (?cs ! i) (?ones (int i)) \<and>
                       op_context (b' (int i)) = cqe_wr_id (?cs ! i)"
    and outside: "\<forall>j. j < 0 \<or> 1 \<le> j \<longrightarrow> b' j = ?ones j"
    and re: "efa_cq_readerr cq' ex_err_entry 0 = Some (sizeof_fi_cq_err_entry, cq'', e)"
      "op_context e = 8" "prov_errno e = 12"
    by blast
  from inside [rule_format, of 0]
  have b0: "b' 0 = \<lparr>op_context = 7, flags = FI_SEND OR FI_MSG, len = 64, buf = 1, data = 0\<rparr>"
    by (simp add: ex_cqe_sel)
  from outside have b1: "b' 1 = \<lparr>op_context = 1, flags = 1, len = 1, buf = 1, data = 1\<rparr>"
    by simp
  have first: "\<exists>cq' b' s'.
     efa_cq_readfrom ?cq ?ones 4 None = Some (1, cq', b', s') \<and>
     b' 0 = \<lparr>op_context = 7, flags = FI_SEND OR FI_MSG, len = 64, buf = 1, data = 0\<rparr> \<and>
     b' 1 = \<lparr>op_context = 1, flags = 1, len = 1, buf = 1, data = 1\<rparr> \<and>
     (\<exists>cq'' e. efa_cq_readerr cq' ex_err_entry 0 = Some (sizeof_fi_cq_err_entry, cq'', e) \<and>
               op_context e = 8 \<and> prov_errno e = 12)"
    using r b0 b1 re by blast
  from efa_cq_readfrom_stops_at_errored
    [OF h1(2) h2(2) h3(2) h4 h5 h6(2) h7(2), of ex_buf None ex_err_entry 0]
  have "\<exists>cq' b' s'.
     efa_cq_readfrom ?cqe ex_buf 4 None = Some (- FI_EAVAIL, cq', b', s') \<and>
     (\<forall>j. j < 0 \<or> 0 \<le> j \<longrightarrow> b' j = ex_buf j) \<and>
     (\<exists>cq'' e. efa_cq_readerr cq' ex_err_entry 0 = Some (sizeof_fi_cq_err_entry, cq'', e) \<and>
               op_context e = 8 \<and> prov_errno e = 12)"
    by (simp add: ex_cqe_sel)
  then obtain cq' b' s' cq'' e where
    r: "efa_cq_readfrom ?cqe ex_buf 4 None = Some (- FI_EAVAIL, cq', b', s')"
    and outside: "\<forall>j. j < 0 \<or> 0 \<le> j \<longrightarrow> b' j = ex_buf j"
    and re: "efa_cq_readerr cq' ex_err_entry 0 = Some (sizeof_fi_cq_err_entry, cq'', e)"
      "op_context e = 8" "prov_errno e = 12"
    by blast
  from outside have "b' 0 = ex_buf 0" by simp
  with r re have second: "\<exists>cq' b' s'.
     efa_cq_readfrom ?cqe ex_buf 4 None = Some (- FI_EAVAIL, cq', b', s') \<and>
     b' 0 = ex_buf 0 \<and>
     (\<exists>cq'' e. efa_cq_readerr cq' ex_err_entry 0 = Some (sizeof_fi_cq_err_entry, cq'', e) \<and>
               op_context e = 8 \<and> prov_errno e = 12)"
    by blast
  from first second show ?thesis by simp
qed

section \<open>The poll session and the lock\<close>

text \<open>
  C7. In every call of \<^verbatim>\<open>efa_cq_readfrom\<close> that returns, \<^verbatim>\<open>ibv_start_poll\<close> is called
  exactly once, and \<^verbatim>\<open>ibv_end_poll\<close> exactly once when the start returned 0 and never
  when it failed: the calls are the lock, the start, the calls of \<^verbatim>\<open>ibv_next_poll\<close>
  of the loop, the end if the start succeeded, and the unlock. With the capacity 0 the
  loop makes no call and the arrays are as they were. A call returns (no \<^verbatim>\<open>assert\<close>
  stops it) whenever the opcodes of the ring are Send or Receive.
\<close>

theorem efa_cq_readfrom_poll_session:
  "(efa_cq_readfrom cq b count s = Some (r, cq', b', s') \<longrightarrow>
      length (filter is_start_poll (calls_since cq cq')) = 1 \<and>
      count_list (calls_since cq cq') Ev_end_poll =
        (if fst (hw_poll (ibv_cq_ex cq)) = 0 then 1 else 0) \<and>
      (\<exists>nexts. calls_since cq cq' =
         Ev_spin_lock # Ev_start_poll (fst (hw_poll (ibv_cq_ex cq))) # nexts @
           (if fst (hw_poll (ibv_cq_ex cq)) = 0 then [Ev_end_poll] else []) @ [Ev_spin_unlock] \<and>
         (\<forall>e\<in>set nexts. is_next_poll e) \<and>
         (count = 0 \<longrightarrow> nexts = [] \<and> b' = b \<and> s' = s))) \<and>
   (bound_formatter (read_entry cq) \<and> ring_supported (hw_ring (ibv_cq_ex cq)) \<longrightarrow>
      efa_cq_readfrom cq b count s \<noteq> None)"
proof (intro conjI impI)
  assume a: "efa_cq_readfrom cq b count s = Some (r, cq', b', s')"
  from readfrom_calls [OF a] obtain nexts where
    c: "calls_since cq cq' =
         Ev_spin_lock # Ev_start_poll (fst (hw_poll (ibv_cq_ex cq))) # nexts @
           (if fst (hw_poll (ibv_cq_ex cq)) = 0 then [Ev_end_poll] else []) @ [Ev_spin_unlock]"
    and n: "\<forall>e\<in>set nexts. is_next_poll e" "count = 0 \<longrightarrow> nexts = [] \<and> b' = b \<and> s' = s"
    by blast
  from next_polls_filter [OF n(1)] c
  show "length (filter is_start_poll (calls_since cq cq')) = 1"
    and "count_list (calls_since cq cq') Ev_end_poll =
           (if fst (hw_poll (ibv_cq_ex cq)) = 0 then 1 else 0)"
    by simp_all
  from c n show "\<exists>nexts. calls_since cq cq' =
         Ev_spin_lock # Ev_start_poll (fst (hw_poll (ibv_cq_ex cq))) # nexts @
           (if fst (hw_poll (ibv_cq_ex cq)) = 0 then [Ev_end_poll] else []) @ [Ev_spin_unlock] \<and>
         (\<forall>e\<in>set nexts. is_next_poll e) \<and>
         (count = 0 \<longrightarrow> nexts = [] \<and> b' = b \<and> s' = s)"
    by blast
next
  assume "bound_formatter (read_entry cq) \<and> ring_supported (hw_ring (ibv_cq_ex cq))"
  then show "efa_cq_readfrom cq b count s \<noteq> None"
    by (simp add: readfrom_returns)
qed

theorem efa_cq_readfrom_poll_session_witness:
  "calls_since (ex_cq efa_cq_read_msg_entry [Cqe (ex_cqe 7 IBV_WC_SEND 0)])
     (ofi_spin_unlock (ibv_end_poll (snd (ibv_start_poll (ofi_spin_lock
        (ex_cq efa_cq_read_msg_entry [Cqe (ex_cqe 7 IBV_WC_SEND 0)])))))) =
     [Ev_spin_lock, Ev_start_poll 0, Ev_end_poll, Ev_spin_unlock] \<and>
   calls_since (ex_cq efa_cq_read_msg_entry [])
     (ofi_spin_unlock (snd (ibv_start_poll (ofi_spin_lock (ex_cq efa_cq_read_msg_entry []))))) =
     [Ev_spin_lock, Ev_start_poll ENOENT, Ev_spin_unlock] \<and>
   efa_cq_readfrom (ex_cq efa_cq_read_msg_entry [Cqe (ex_cqe 7 IBV_WC_SEND 0)]) ex_buf 0 None \<noteq> None"
proof -
  let ?a = "ex_cq efa_cq_read_msg_entry [Cqe (ex_cqe 7 IBV_WC_SEND 0)]"
  let ?e = "ex_cq efa_cq_read_msg_entry []"
  have ra: "hw_ring (ibv_cq_ex ?a) = Cqe (ex_cqe 7 IBV_WC_SEND 0) # []"
    and re: "hw_ring (ibv_cq_ex ?e) = []"
    by (simp_all add: ex_cq_sel)
  have sup: "bound_formatter (read_entry ?a) \<and> ring_supported (hw_ring (ibv_cq_ex ?a))"
    by (simp add: ex_cq_sel ex_bound ring_supported_def ex_cqe_sel supported_opcode_def)
  let ?a' = "ofi_spin_unlock (ibv_end_poll (snd (ibv_start_poll (ofi_spin_lock ?a))))"
  let ?e' = "ofi_spin_unlock (snd (ibv_start_poll (ofi_spin_lock ?e)))"
  note za = readfrom_zero [OF ra, of ex_buf None]
  note ze = readfrom_empty [OF re, of ex_buf 0 None]
  from efa_cq_readfrom_poll_session [of ?a ex_buf 0 None 0 ?a' ex_buf None] za sup
  have 1: "calls_since ?a ?a' = [Ev_spin_lock, Ev_start_poll 0, Ev_end_poll, Ev_spin_unlock] \<and>
           efa_cq_readfrom ?a ex_buf 0 None \<noteq> None"
    by (simp add: hw_poll_Cqe [OF ra])
  from efa_cq_readfrom_poll_session [of ?e ex_buf 0 None "- FI_EAGAIN" ?e' ex_buf None] ze
  have 2: "calls_since ?e ?e' = [Ev_spin_lock, Ev_start_poll ENOENT, Ev_spin_unlock]"
    by (simp add: hw_poll_Nil [OF re] ENOENT_def)
  from 1 2 show ?thesis by simp
qed

text \<open>
  C10. Every call of \<^verbatim>\<open>efa_cq_readfrom\<close> and of \<^verbatim>\<open>efa_cq_readerr\<close> that returns has
  taken the lock exactly once, first, and released it exactly once, last, so the lock is
  free when the call returns: for \<^verbatim>\<open>efa_cq_readerr\<close> on both of its paths, for
  \<^verbatim>\<open>efa_cq_readfrom\<close> whatever the poll codes were. The calls return whenever the
  opcodes are Send or Receive; the other opcodes stop the process in \<^verbatim>\<open>assert(0)\<close>.
\<close>

theorem efa_cq_lock_released:
  "(efa_cq_readfrom cq b count s = Some (r, cq', b', s') \<longrightarrow>
      lock cq' = Spin_unlocked \<and>
      count_list (calls_since cq cq') Ev_spin_lock = 1 \<and>
      count_list (calls_since cq cq') Ev_spin_unlock = 1 \<and>
      hd (calls_since cq cq') = Ev_spin_lock \<and> last (calls_since cq cq') = Ev_spin_unlock) \<and>
   (efa_cq_readerr cq entry fl = Some (r2, cq2, e2) \<longrightarrow>
      lock cq2 = Spin_unlocked \<and> calls_since cq cq2 = [Ev_spin_lock, Ev_spin_unlock]) \<and>
   (bound_formatter (read_entry cq) \<and> ring_supported (hw_ring (ibv_cq_ex cq)) \<longrightarrow>
      efa_cq_readfrom cq b count s \<noteq> None) \<and>
   (status (ibv_cq_ex cq) \<noteq> 0 \<longrightarrow> supported_opcode (ibv_wc_read_opcode (ibv_cq_ex cq)) \<longrightarrow>
      efa_cq_readerr cq entry fl \<noteq> None) \<and>
   (status (ibv_cq_ex cq) = 0 \<longrightarrow> efa_cq_readerr cq entry fl \<noteq> None)"
proof (intro conjI impI)
  assume a: "efa_cq_readfrom cq b count s = Some (r, cq', b', s')"
  from readfrom_trace [OF a] show "lock cq' = Spin_unlocked" by blast
  from readfrom_calls [OF a] obtain nexts where
    c: "calls_since cq cq' =
         Ev_spin_lock # Ev_start_poll (fst (hw_poll (ibv_cq_ex cq))) # nexts @
           (if fst (hw_poll (ibv_cq_ex cq)) = 0 then [Ev_end_poll] else []) @ [Ev_spin_unlock]"
    and n: "\<forall>e\<in>set nexts. is_next_poll e"
    by blast
  from next_polls_filter [OF n] c
  show "count_list (calls_since cq cq') Ev_spin_lock = 1"
    and "count_list (calls_since cq cq') Ev_spin_unlock = 1"
    and "hd (calls_since cq cq') = Ev_spin_lock"
    and "last (calls_since cq cq') = Ev_spin_unlock"
    by simp_all
next
  assume a: "efa_cq_readerr cq entry fl = Some (r2, cq2, e2)"
  then have "cq2 = ofi_spin_unlock (ofi_spin_lock cq)"
    by (auto simp: efa_cq_readerr_def Let_def split: if_splits option.splits)
  then show "lock cq2 = Spin_unlocked" and "calls_since cq cq2 = [Ev_spin_lock, Ev_spin_unlock]"
    by (simp_all add: calls_since_def)
next
  assume "bound_formatter (read_entry cq) \<and> ring_supported (hw_ring (ibv_cq_ex cq))"
  then show "efa_cq_readfrom cq b count s \<noteq> None"
    by (simp add: readfrom_returns)
next
  assume "status (ibv_cq_ex cq) \<noteq> 0" "supported_opcode (ibv_wc_read_opcode (ibv_cq_ex cq))"
  then show "efa_cq_readerr cq entry fl \<noteq> None"
    using supported_flags [of "ibv_wc_read_opcode (ibv_cq_ex cq)"] readerr_pending [of cq _ entry fl]
    by auto
next
  assume "status (ibv_cq_ex cq) = 0"
  then show "efa_cq_readerr cq entry fl \<noteq> None"
    by (simp add: readerr_idle)
qed

theorem efa_cq_lock_released_witness:
  "lock (ofi_spin_unlock (ibv_end_poll (snd (ibv_start_poll (ofi_spin_lock
        (ex_cq efa_cq_read_msg_entry [Cqe (ex_cqe 7 IBV_WC_SEND 0)])))))) = Spin_unlocked \<and>
   count_list (calls_since (ex_cq efa_cq_read_msg_entry [Cqe (ex_cqe 7 IBV_WC_SEND 0)])
     (ofi_spin_unlock (ibv_end_poll (snd (ibv_start_poll (ofi_spin_lock
        (ex_cq efa_cq_read_msg_entry [Cqe (ex_cqe 7 IBV_WC_SEND 0)]))))))) Ev_spin_lock = 1 \<and>
   count_list (calls_since (ex_cq efa_cq_read_msg_entry [Cqe (ex_cqe 7 IBV_WC_SEND 0)])
     (ofi_spin_unlock (ibv_end_poll (snd (ibv_start_poll (ofi_spin_lock
        (ex_cq efa_cq_read_msg_entry [Cqe (ex_cqe 7 IBV_WC_SEND 0)]))))))) Ev_spin_unlock = 1 \<and>
   calls_since ex_pending_cq (ofi_spin_unlock (ofi_spin_lock ex_pending_cq)) =
     [Ev_spin_lock, Ev_spin_unlock] \<and>
   calls_since (ex_cq efa_cq_read_msg_entry [])
     (ofi_spin_unlock (ofi_spin_lock (ex_cq efa_cq_read_msg_entry []))) =
     [Ev_spin_lock, Ev_spin_unlock] \<and>
   efa_cq_readfrom (ex_cq efa_cq_read_msg_entry [Cqe (ex_cqe 7 IBV_WC_SEND 0)]) ex_buf 0 None \<noteq> None \<and>
   efa_cq_readerr ex_pending_cq ex_err_entry 0 \<noteq> None \<and>
   efa_cq_readerr (ex_cq efa_cq_read_msg_entry []) ex_err_entry 0 \<noteq> None"
proof -
  let ?a = "ex_cq efa_cq_read_msg_entry [Cqe (ex_cqe 7 IBV_WC_SEND 0)]"
  let ?e = "ex_cq efa_cq_read_msg_entry []"
  have ra: "hw_ring (ibv_cq_ex ?a) = Cqe (ex_cqe 7 IBV_WC_SEND 0) # []"
    by (simp add: ex_cq_sel)
  have sup: "bound_formatter (read_entry ?a) \<and> ring_supported (hw_ring (ibv_cq_ex ?a))"
    by (simp add: ex_cq_sel ex_bound ring_supported_def ex_cqe_sel supported_opcode_def)
  have idle: "status (ibv_cq_ex ?e) = 0"
    by (simp add: ex_cq_sel)
  let ?a' = "ofi_spin_unlock (ibv_end_poll (snd (ibv_start_poll (ofi_spin_lock ?a))))"
  note za = readfrom_zero [OF ra, of ex_buf None]
  from efa_cq_lock_released [of ?a ex_buf 0 None 0 ?a' ex_buf None ex_err_entry 0] za sup
  have 1: "lock ?a' = Spin_unlocked \<and>
           count_list (calls_since ?a ?a') Ev_spin_lock = 1 \<and>
           count_list (calls_since ?a ?a') Ev_spin_unlock = 1 \<and>
           efa_cq_readfrom ?a ex_buf 0 None \<noteq> None"
    by simp
  from efa_cq_lock_released
    [of ex_pending_cq ex_buf 0 None 0 ex_pending_cq ex_buf None ex_err_entry 0
      sizeof_fi_cq_err_entry "ofi_spin_unlock (ofi_spin_lock ex_pending_cq)"
      "ex_err_entry\<lparr>op_context := 7, flags := FI_SEND OR FI_MSG, err := EIO,
                        prov_errno := 12, err_data_size := 0\<rparr>"]
    readerr_ex_pending [of 0]
  have 2: "calls_since ex_pending_cq (ofi_spin_unlock (ofi_spin_lock ex_pending_cq)) =
             [Ev_spin_lock, Ev_spin_unlock] \<and>
           efa_cq_readerr ex_pending_cq ex_err_entry 0 \<noteq> None"
    by simp
  from efa_cq_lock_released
    [of ?e ex_buf 0 None 0 ?e ex_buf None ex_err_entry 0
      "- FI_EAGAIN" "ofi_spin_unlock (ofi_spin_lock ?e)" ex_err_entry]
    readerr_idle [OF idle, of ex_err_entry 0] idle
  have 3: "calls_since ?e (ofi_spin_unlock (ofi_spin_lock ?e)) = [Ev_spin_lock, Ev_spin_unlock] \<and>
           efa_cq_readerr ?e ex_err_entry 0 \<noteq> None"
    by simp
  from 1 2 3 show ?thesis by simp
qed

section \<open>Opening and closing\<close>

text \<open>
  C8. \<^verbatim>\<open>efa_cq_open\<close> rejects every wait object other than \<^verbatim>\<open>FI_WAIT_NONE\<close> with
  \<^verbatim>\<open>-FI_ENOSYS\<close> before any call is made; it never opens a queue of the tagged layout
  or of a layout outside the enumeration, and rejects them with \<^verbatim>\<open>-FI_ENOSYS\<close> when
  the calls before the choice of the layout succeed; it asks \<^verbatim>\<open>ibv_create_cq_ex\<close> for
  \<^verbatim>\<open>EFA_DEF_CQ_SIZE\<close> entries, and for no other number, when the requested size is 0;
  and a queue it opens has the formatter and the entry size of its layout, one of the
  three, which neither \<^verbatim>\<open>efa_cq_readfrom\<close> nor \<^verbatim>\<open>efa_cq_readerr\<close> changes.
\<close>

theorem efa_cq_open_checks:
  "(wait_obj attr \<noteq> FI_WAIT_NONE \<longrightarrow> efa_cq_open env dm attr = (- FI_ENOSYS, None, [])) \<and>
   (format attr = FI_CQ_FORMAT_TAGGED \<or> (\<exists>v. format attr = FI_CQ_FORMAT_out_of_range v) \<longrightarrow>
      fst (efa_cq_open env dm attr) \<noteq> 0 \<and> fst (snd (efa_cq_open env dm attr)) = None \<and>
      (wait_obj attr = FI_WAIT_NONE \<and> resources_granted env \<longrightarrow>
         fst (efa_cq_open env dm attr) = - FI_ENOSYS)) \<and>
   (wait_obj attr = FI_WAIT_NONE \<and> resources_granted env \<and> attr_size attr = 0 \<longrightarrow>
      Ev_ibv_create_cq_ex EFA_DEF_CQ_SIZE \<in> set (snd (snd (efa_cq_open env dm attr))) \<and>
      (\<forall>n. Ev_ibv_create_cq_ex n \<in> set (snd (snd (efa_cq_open env dm attr))) \<longrightarrow>
           n = EFA_DEF_CQ_SIZE)) \<and>
   (wait_obj attr = FI_WAIT_NONE \<and> resources_granted env \<and>
    format attr \<in> {FI_CQ_FORMAT_UNSPEC, FI_CQ_FORMAT_CONTEXT, FI_CQ_FORMAT_MSG, FI_CQ_FORMAT_DATA} \<longrightarrow>
      (\<exists>cq. efa_cq_open env dm attr =
           (0, Some cq,
            [Ev_calloc, Ev_ofi_cq_init,
             Ev_ibv_create_cq_ex
               (if attr_size attr \<noteq> 0 then ucast (attr_size attr) else EFA_DEF_CQ_SIZE),
             Ev_bufpool_create, Ev_spin_init]) \<and>
           cqe (ibv_cq_ex cq) =
             (if attr_size attr \<noteq> 0 then ucast (attr_size attr) else EFA_DEF_CQ_SIZE) \<and>
           (read_entry cq, entry_size cq) =
             (case format attr of
                FI_CQ_FORMAT_MSG \<Rightarrow> (efa_cq_read_msg_entry, sizeof_fi_cq_msg_entry)
              | FI_CQ_FORMAT_DATA \<Rightarrow> (efa_cq_read_data_entry, sizeof_fi_cq_data_entry)
              | _ \<Rightarrow> (efa_cq_read_context_entry, sizeof_fi_cq_entry)) \<and>
           bound_formatter (read_entry cq))) \<and>
   (efa_cq_readfrom cq b count s = Some (r, cq', b', s') \<longrightarrow>
      read_entry cq' = read_entry cq \<and> entry_size cq' = entry_size cq) \<and>
   (efa_cq_readerr cq entry fl = Some (r2, cq2, e2) \<longrightarrow>
      read_entry cq2 = read_entry cq \<and> entry_size cq2 = entry_size cq)"
proof (intro conjI impI)
  assume "wait_obj attr \<noteq> FI_WAIT_NONE"
  then show "efa_cq_open env dm attr = (- FI_ENOSYS, None, [])"
    by (rule open_wait)
next
  assume u: "format attr = FI_CQ_FORMAT_TAGGED \<or> (\<exists>v. format attr = FI_CQ_FORMAT_out_of_range v)"
  from open_never_unsupported [OF u]
  show "fst (efa_cq_open env dm attr) \<noteq> 0" and "fst (snd (efa_cq_open env dm attr)) = None"
    by simp_all
  assume "wait_obj attr = FI_WAIT_NONE \<and> resources_granted env"
  with open_unsupported [OF u, of env dm]
  show "fst (efa_cq_open env dm attr) = - FI_ENOSYS" by simp
next
  assume a: "wait_obj attr = FI_WAIT_NONE \<and> resources_granted env \<and> attr_size attr = 0"
  then show "Ev_ibv_create_cq_ex EFA_DEF_CQ_SIZE \<in> set (snd (snd (efa_cq_open env dm attr)))"
    by (cases "format attr") (simp_all add: efa_cq_open_def resources_granted_def)
  from a show "\<forall>n. Ev_ibv_create_cq_ex n \<in> set (snd (snd (efa_cq_open env dm attr))) \<longrightarrow>
           n = EFA_DEF_CQ_SIZE"
    by (cases "format attr") (simp_all add: efa_cq_open_def resources_granted_def)
next
  assume "wait_obj attr = FI_WAIT_NONE \<and> resources_granted env \<and>
    format attr \<in> {FI_CQ_FORMAT_UNSPEC, FI_CQ_FORMAT_CONTEXT, FI_CQ_FORMAT_MSG, FI_CQ_FORMAT_DATA}"
  with open_supported [of attr env dm]
  show "\<exists>cq. efa_cq_open env dm attr =
           (0, Some cq,
            [Ev_calloc, Ev_ofi_cq_init,
             Ev_ibv_create_cq_ex
               (if attr_size attr \<noteq> 0 then ucast (attr_size attr) else EFA_DEF_CQ_SIZE),
             Ev_bufpool_create, Ev_spin_init]) \<and>
           cqe (ibv_cq_ex cq) =
             (if attr_size attr \<noteq> 0 then ucast (attr_size attr) else EFA_DEF_CQ_SIZE) \<and>
           (read_entry cq, entry_size cq) =
             (case format attr of
                FI_CQ_FORMAT_MSG \<Rightarrow> (efa_cq_read_msg_entry, sizeof_fi_cq_msg_entry)
              | FI_CQ_FORMAT_DATA \<Rightarrow> (efa_cq_read_data_entry, sizeof_fi_cq_data_entry)
              | _ \<Rightarrow> (efa_cq_read_context_entry, sizeof_fi_cq_entry)) \<and>
           bound_formatter (read_entry cq)"
    by blast
next
  assume a: "efa_cq_readfrom cq b count s = Some (r, cq', b', s')"
  from readfrom_trace [OF a]
  show "read_entry cq' = read_entry cq" and "entry_size cq' = entry_size cq"
    by blast+
next
  assume "efa_cq_readerr cq entry fl = Some (r2, cq2, e2)"
  then have "cq2 = ofi_spin_unlock (ofi_spin_lock cq)"
    by (rule readerr_queue)
  then show "read_entry cq2 = read_entry cq" and "entry_size cq2 = entry_size cq"
    by simp_all
qed

theorem efa_cq_open_checks_witness:
  "efa_cq_open ex_env ex_domain \<lparr>attr_size = 64, format = FI_CQ_FORMAT_MSG, wait_obj = FI_WAIT_FD\<rparr> =
     (- FI_ENOSYS, None, []) \<and>
   fst (efa_cq_open ex_env ex_domain
          \<lparr>attr_size = 64, format = FI_CQ_FORMAT_TAGGED, wait_obj = FI_WAIT_NONE\<rparr>) = - FI_ENOSYS \<and>
   fst (efa_cq_open ex_env ex_domain
          \<lparr>attr_size = 64, format = FI_CQ_FORMAT_out_of_range 9, wait_obj = FI_WAIT_NONE\<rparr>) =
     - FI_ENOSYS \<and>
   (\<exists>cq. efa_cq_open ex_env ex_domain
            \<lparr>attr_size = 0, format = FI_CQ_FORMAT_MSG, wait_obj = FI_WAIT_NONE\<rparr> =
            (0, Some cq,
             [Ev_calloc, Ev_ofi_cq_init, Ev_ibv_create_cq_ex EFA_DEF_CQ_SIZE, Ev_bufpool_create,
              Ev_spin_init]) \<and>
          cqe (ibv_cq_ex cq) = EFA_DEF_CQ_SIZE \<and>
          read_entry cq = efa_cq_read_msg_entry \<and> entry_size cq = sizeof_fi_cq_msg_entry)"
proof -
  note g = ex_env_granted
  from efa_cq_open_checks
    [where attr = "\<lparr>attr_size = 64, format = FI_CQ_FORMAT_MSG, wait_obj = FI_WAIT_FD\<rparr>"
       and env = ex_env and dm = ex_domain]
  have 1: "efa_cq_open ex_env ex_domain
             \<lparr>attr_size = 64, format = FI_CQ_FORMAT_MSG, wait_obj = FI_WAIT_FD\<rparr> =
             (- FI_ENOSYS, None, [])"
    by simp
  from efa_cq_open_checks
    [where attr = "\<lparr>attr_size = 64, format = FI_CQ_FORMAT_TAGGED, wait_obj = FI_WAIT_NONE\<rparr>"
       and env = ex_env and dm = ex_domain] g
  have 2: "fst (efa_cq_open ex_env ex_domain
             \<lparr>attr_size = 64, format = FI_CQ_FORMAT_TAGGED, wait_obj = FI_WAIT_NONE\<rparr>) =
             - FI_ENOSYS"
    by simp
  from efa_cq_open_checks
    [where attr = "\<lparr>attr_size = 64, format = FI_CQ_FORMAT_out_of_range 9, wait_obj = FI_WAIT_NONE\<rparr>"
       and env = ex_env and dm = ex_domain] g
  have 3: "fst (efa_cq_open ex_env ex_domain
             \<lparr>attr_size = 64, format = FI_CQ_FORMAT_out_of_range 9, wait_obj = FI_WAIT_NONE\<rparr>) =
             - FI_ENOSYS"
    by simp
  from efa_cq_open_checks
    [where attr = "\<lparr>attr_size = 0, format = FI_CQ_FORMAT_MSG, wait_obj = FI_WAIT_NONE\<rparr>"
       and env = ex_env and dm = ex_domain,
     THEN conjunct2, THEN conjunct2, THEN conjunct2, THEN conjunct1] g
  have 4: "\<exists>cq. efa_cq_open ex_env ex_domain
            \<lparr>attr_size = 0, format = FI_CQ_FORMAT_MSG, wait_obj = FI_WAIT_NONE\<rparr> =
            (0, Some cq,
             [Ev_calloc, Ev_ofi_cq_init, Ev_ibv_create_cq_ex EFA_DEF_CQ_SIZE, Ev_bufpool_create,
              Ev_spin_init]) \<and>
          cqe (ibv_cq_ex cq) = EFA_DEF_CQ_SIZE \<and>
          read_entry cq = efa_cq_read_msg_entry \<and> entry_size cq = sizeof_fi_cq_msg_entry"
    by auto
  from 1 2 3 4 show ?thesis by blast
qed

text \<open>
  C9. When \<^verbatim>\<open>ibv_destroy_cq\<close> fails, \<^verbatim>\<open>efa_cq_close\<close> returns the negated code of the
  failure, which is not 0; the calls it has made are the destruction of the pool, that
  of the lock and the attempt on the ring, in this order; the queue object is not freed,
  and its pool and its lock are destroyed.
\<close>

theorem efa_cq_close_ring_failure:
  assumes "ibv_destroy_cq_ret env \<noteq> 0"
  shows "fst (efa_cq_close env cq) = - ibv_destroy_cq_ret env \<and>
         fst (efa_cq_close env cq) \<noteq> 0 \<and>
         calls_since cq (snd (efa_cq_close env cq)) =
           [Ev_bufpool_destroy, Ev_spin_destroy, Ev_ibv_destroy_cq] \<and>
         Ev_free \<notin> set (calls_since cq (snd (efa_cq_close env cq))) \<and>
         wce_pool (snd (efa_cq_close env cq)) = False \<and>
         lock (snd (efa_cq_close env cq)) = Spin_destroyed"
  using assms
  by (simp add: efa_cq_close_def Let_def calls_since_def ofi_bufpool_destroy_def
      ofi_spin_destroy_def)

theorem efa_cq_close_ring_failure_witness:
  "fst (efa_cq_close \<lparr>ibv_destroy_cq_ret = 16, ofi_cq_cleanup_ret = 0\<rparr> ex_pending_cq) = - 16 \<and>
   calls_since ex_pending_cq
     (snd (efa_cq_close \<lparr>ibv_destroy_cq_ret = 16, ofi_cq_cleanup_ret = 0\<rparr> ex_pending_cq)) =
     [Ev_bufpool_destroy, Ev_spin_destroy, Ev_ibv_destroy_cq] \<and>
   lock (snd (efa_cq_close \<lparr>ibv_destroy_cq_ret = 16, ofi_cq_cleanup_ret = 0\<rparr> ex_pending_cq)) =
     Spin_destroyed"
  using efa_cq_close_ring_failure
    [of "\<lparr>ibv_destroy_cq_ret = 16, ofi_cq_cleanup_ret = 0\<rparr>" ex_pending_cq]
  by simp

end
